theory Spec2Isabelle
  imports Complex_Main
begin

section \<open>Point-cloud registration core (Core/Registration/Registration.cpp)\<close>

text \<open>
  The model follows the build of Registration.cpp without \<^verbatim>\<open>_OPENMP\<close>: every
  \<^verbatim>\<open>#pragma omp\<close> region is then a plain block executed once by one thread.
  A \<^verbatim>\<open>double\<close> is modelled as a \<^typ>\<open>real\<close> (rounding, infinities and NaN are
  outside the model), an \<^verbatim>\<open>int\<close> as an \<^typ>\<open>int\<close> (no loop counter of the file
  can overflow: each is bounded by an \<^verbatim>\<open>int\<close> limit or a container size).
  Reading a \<^verbatim>\<open>std::vector\<close> out of range and taking a remainder by zero are
  undefined behaviour in C++; the model makes them explicit as a \<open>fault\<close>.
\<close>

subsection \<open>Data model\<close>

datatype fault = OutOfRange | DivideByZero

type_synonym vec3 = "real \<times> real \<times> real"

type_synonym PointCloud = "vec3 list"

type_synonym mat4 = "real list list"

type_synonym mat6 = "real list list"

type_synonym CorrespondenceSet = "(int \<times> int) list"

definition at_index :: "'a list \<Rightarrow> int \<Rightarrow> fault + 'a" where
  "at_index xs i =
     (if 0 \<le> i \<and> i < int (length xs) then Inr (xs ! nat i) else Inl OutOfRange)"

definition sub3 :: "vec3 \<Rightarrow> vec3 \<Rightarrow> vec3" where
  "sub3 p q = (case p of (a, b, c) \<Rightarrow> case q of (x, y, z) \<Rightarrow> (a - x, b - y, c - z))"

definition squaredNorm :: "vec3 \<Rightarrow> real" where
  "squaredNorm p = (case p of (a, b, c) \<Rightarrow> a * a + b * b + c * c)"

text \<open>Eigen's fixed-size matrices, as lists of rows.\<close>

definition Identity :: "nat \<Rightarrow> real list list" where
  "Identity n = map (\<lambda>i. map (\<lambda>j. if i = j then 1 else 0) [0..<n]) [0..<n]"

definition mat_add :: "real list list \<Rightarrow> real list list \<Rightarrow> real list list" where
  "mat_add A B = map2 (map2 (+)) A B"

definition outer :: "real list \<Rightarrow> real list list" where
  "outer g = map (\<lambda>a. map (\<lambda>b. a * b) g) g"

record RegistrationResult =
  transformation :: mat4
  correspondence_set :: CorrespondenceSet
  fitness :: real
  inlier_rmse :: real

text \<open>
  Modelled from the spec: the constructor \<^verbatim>\<open>RegistrationResult(transformation)\<close> is
  declared in Registration.h, which is not among the sources; by the spec a fresh
  result has an empty correspondence set, fitness 0 and inlier RMSE 0, and the
  transformation defaults to the identity.
\<close>

definition RegistrationResult_of :: "mat4 \<Rightarrow> RegistrationResult" where
  "RegistrationResult_of T =
     \<lparr>transformation = T, correspondence_set = [], fitness = 0, inlier_rmse = 0\<rparr>"

definition RegistrationResult_default :: RegistrationResult where
  "RegistrationResult_default = RegistrationResult_of (Identity 4)"

subsection \<open>GetInformationMatrixFromRegistrationResult\<close>

text \<open>
  One pass of the loop body for the correspondence \<open>c\<close>: the three rows
  \<open>G_r_private\<close> are built from the target point at index \<open>c(1)\<close> and their outer
  products are added to \<open>GTG_private\<close>.
\<close>

definition information_step ::
  "PointCloud \<Rightarrow> int \<times> int \<Rightarrow> mat6 \<Rightarrow> fault + mat6" where
  "information_step target c GTG_private =
     (case at_index target (snd c) of
        Inl e \<Rightarrow> Inl e
      | Inr (x, y, z) \<Rightarrow>
          Inr (mat_add (mat_add (mat_add GTG_private
                 (outer [1, 0, 0, 0, 2 * z, - 2 * y]))
                 (outer [0, 1, 0, - 2 * z, 0, 2 * x]))
                 (outer [0, 0, 1, 2 * y, - 2 * x, 0])))"

fun information_loop :: "PointCloud \<Rightarrow> CorrespondenceSet \<Rightarrow> mat6 \<Rightarrow> fault + mat6" where
  "information_loop target [] GTG_private = Inr GTG_private"
| "information_loop target (c # cs) GTG_private =
     (case information_step target c GTG_private of
        Inl e \<Rightarrow> Inl e
      | Inr G \<Rightarrow> information_loop target cs G)"

definition GetInformationMatrixFromRegistrationResult ::
  "PointCloud \<Rightarrow> PointCloud \<Rightarrow> RegistrationResult \<Rightarrow> fault + mat6" where
  "GetInformationMatrixFromRegistrationResult source target result =
     (let GTG = Identity 6;
          GTG_private = Identity 6
      in case information_loop target (correspondence_set result) GTG_private of
           Inl e \<Rightarrow> Inl e
         | Inr G \<Rightarrow> Inr (mat_add GTG G))"

subsection \<open>External collaborators\<close>

text \<open>
  Eigen's product of two 4x4 matrices, the action of a homogeneous transform on a
  point (the fourth coordinate of the point is 1 and the fourth row of the product is
  dropped) and \<^verbatim>\<open>isIdentity()\<close> with its default precision: a diagonal entry \<open>a\<close>
  passes when \<open>\<bar>a - 1\<bar> \<le> min \<bar>a\<bar> 1 * prec\<close>, any other entry when
  \<open>\<bar>a\<bar> \<le> prec\<close>.
\<close>

definition mat_mul :: "mat4 \<Rightarrow> mat4 \<Rightarrow> mat4" where
  "mat_mul A B =
     map (\<lambda>i. map (\<lambda>j. sum_list (map (\<lambda>k. A ! i ! k * B ! k ! j) [0..<4])) [0..<4]) [0..<4]"

definition mat_apply :: "mat4 \<Rightarrow> vec3 \<Rightarrow> vec3" where
  "mat_apply T p =
     (case p of (x, y, z) \<Rightarrow>
        (T ! 0 ! 0 * x + T ! 0 ! 1 * y + T ! 0 ! 2 * z + T ! 0 ! 3,
         T ! 1 ! 0 * x + T ! 1 ! 1 * y + T ! 1 ! 2 * z + T ! 1 ! 3,
         T ! 2 ! 0 * x + T ! 2 ! 1 * y + T ! 2 ! 2 * z + T ! 2 ! 3))"

definition dummy_precision :: real where
  "dummy_precision = 1 / 10 ^ 12"

definition isIdentity :: "mat4 \<Rightarrow> bool" where
  "isIdentity T =
     list_all (\<lambda>j. list_all (\<lambda>i.
         if i = j then \<bar>T ! i ! j - 1\<bar> \<le> min \<bar>T ! i ! j\<bar> 1 * dummy_precision
         else \<bar>T ! i ! j\<bar> \<le> dummy_precision) [0..<4]) [0..<4]"

text \<open>
  Modelled from the spec: \<^verbatim>\<open>PointCloud::Transform\<close> lives in
  Core/Geometry/PointCloud.cpp, which is not among the sources. By the spec it is an
  in-place rigid transform of the ordered point sequence: every point is replaced by
  its image, the order and the number of points are kept.
\<close>

definition Transform :: "mat4 \<Rightarrow> PointCloud \<Rightarrow> PointCloud" where
  "Transform T pcd = map (mat_apply T) pcd"

text \<open>
  A \<^verbatim>\<open>KDTreeFlann\<close> built on the target cloud is used only through
  \<^verbatim>\<open>SearchHybrid(query, radius, max_nn, indices, dists)\<close>: the model of the tree is
  that query function, returning the pairs (index, squared distance) it found; the
  C++ return value is the length of this list. A tree built on a feature matrix is
  used only through \<^verbatim>\<open>SearchKNN(query, knn, indices, dists)\<close>, modelled alike.
  The drivers build their trees themselves, so they take the constructor as an
  argument.
\<close>

type_synonym KDTreeFlann = "vec3 \<Rightarrow> real \<Rightarrow> int \<Rightarrow> (int \<times> real) list"

type_synonym Feature = "real list list"

type_synonym KDTreeFlann_feature = "real list \<Rightarrow> int \<Rightarrow> (int \<times> real) list"

type_synonym TransformationEstimation =
  "PointCloud \<Rightarrow> PointCloud \<Rightarrow> CorrespondenceSet \<Rightarrow> mat4"

record CorrespondenceChecker =
  require_pointcloud_alignment :: bool
  Check :: "PointCloud \<Rightarrow> PointCloud \<Rightarrow> CorrespondenceSet \<Rightarrow> mat4 \<Rightarrow> bool"

record ICPConvergenceCriteria =
  relative_fitness :: real
  relative_rmse :: real
  max_iteration :: int

record RANSACConvergenceCriteria =
  max_iteration :: int
  max_validation :: int

text \<open>
  Modelled from the spec: \<^verbatim>\<open>KDTreeFlann::SearchHybrid\<close> lives in
  Core/Geometry/KDTreeFlann.cpp, which is not among the sources. By the spec it
  returns at most \<open>max_nn\<close> points, nearest first, and all returned points satisfy
  squared distance \<open>\<le>\<close> radius squared. This brute-force index is the reference
  instance of the tree argument.
\<close>

definition SearchHybrid_spec :: "PointCloud \<Rightarrow> KDTreeFlann" where
  "SearchHybrid_spec target query radius max_nn =
     take (nat max_nn)
       (sort_key snd
          (filter (\<lambda>jd. snd jd \<le> radius * radius)
             (map (\<lambda>j. (int j, squaredNorm (sub3 query (target ! j))))
                [0..<length target])))"

subsection \<open>GetRegistrationResultAndCorrespondences (the Evaluator)\<close>

text \<open>
  The loop over the source points, \<open>i\<close> counting from 0: the state is the pair
  (\<open>error2_private\<close>, \<open>correspondence_set_private\<close>).
\<close>

fun evaluator_loop ::
  "KDTreeFlann \<Rightarrow> real \<Rightarrow> PointCloud \<Rightarrow> int \<Rightarrow> real \<times> CorrespondenceSet
   \<Rightarrow> real \<times> CorrespondenceSet" where
  "evaluator_loop target_kdtree max_distance [] i acc = acc"
| "evaluator_loop target_kdtree max_distance (point # rest) i (error2_private, cs_private) =
     (case target_kdtree point max_distance 1 of
        [] \<Rightarrow> evaluator_loop target_kdtree max_distance rest (i + 1)
                (error2_private, cs_private)
      | (index, dist2) # _ \<Rightarrow>
          evaluator_loop target_kdtree max_distance rest (i + 1)
            (error2_private + dist2, cs_private @ [(i, index)]))"

definition GetRegistrationResultAndCorrespondences ::
  "PointCloud \<Rightarrow> PointCloud \<Rightarrow> KDTreeFlann \<Rightarrow> real \<Rightarrow> mat4 \<Rightarrow> RegistrationResult" where
  "GetRegistrationResultAndCorrespondences source target target_kdtree
       max_correspondence_distance transformation' =
     (let result = RegistrationResult_of transformation'
      in if max_correspondence_distance \<le> 0 then result
         else
           let (error2, cs) =
                 evaluator_loop target_kdtree max_correspondence_distance source 0 (0, []);
               result = result\<lparr>correspondence_set := cs\<rparr>
           in if correspondence_set result = []
              then result\<lparr>fitness := 0, inlier_rmse := 0\<rparr>
              else
                let corres_number = length (correspondence_set result)
                in result\<lparr>fitness := real corres_number / real (length source),
                          inlier_rmse := sqrt (error2 / real corres_number)\<rparr>)"

subsection \<open>EvaluateRANSACBasedOnCorrespondence (the correspondence scorer)\<close>

text \<open>The loop over \<open>corres\<close>: the state is the pair (\<open>good\<close>, \<open>error2\<close>).\<close>

fun scorer_loop ::
  "PointCloud \<Rightarrow> PointCloud \<Rightarrow> real \<Rightarrow> CorrespondenceSet \<Rightarrow> int \<times> real
   \<Rightarrow> fault + int \<times> real" where
  "scorer_loop source target max_dis2 [] acc = Inr acc"
| "scorer_loop source target max_dis2 (c # rest) (good, error2) =
     (case at_index source (fst c) of
        Inl e \<Rightarrow> Inl e
      | Inr p \<Rightarrow>
          (case at_index target (snd c) of
             Inl e \<Rightarrow> Inl e
           | Inr q \<Rightarrow>
               let dis2 = squaredNorm (sub3 p q)
               in if dis2 < max_dis2
                  then scorer_loop source target max_dis2 rest (good + 1, error2 + dis2)
                  else scorer_loop source target max_dis2 rest (good, error2)))"

definition EvaluateRANSACBasedOnCorrespondence ::
  "PointCloud \<Rightarrow> PointCloud \<Rightarrow> CorrespondenceSet \<Rightarrow> real \<Rightarrow> mat4
   \<Rightarrow> fault + RegistrationResult" where
  "EvaluateRANSACBasedOnCorrespondence source target corres
       max_correspondence_distance transformation' =
     (let result = RegistrationResult_of transformation';
          max_dis2 = max_correspondence_distance * max_correspondence_distance
      in case scorer_loop source target max_dis2 corres (0, 0) of
           Inl e \<Rightarrow> Inl e
         | Inr (good, error2) \<Rightarrow>
             if good = 0
             then Inr (result\<lparr>fitness := 0, inlier_rmse := 0\<rparr>)
             else Inr (result\<lparr>fitness := real_of_int good / real (length corres),
                               inlier_rmse := sqrt (error2 / real_of_int good)\<rparr>))"

subsection \<open>Counted loops and the pseudo-random generator\<close>

text \<open>
  \<^verbatim>\<open>for (int i = i0; i < n; i++) body\<close> over a state \<open>s\<close>; a fault in the body ends
  the run. A \<^verbatim>\<open>continue\<close> in the body is a body that returns its state early.
\<close>

function for_loop ::
  "int \<Rightarrow> int \<Rightarrow> (int \<Rightarrow> 's \<Rightarrow> fault + 's) \<Rightarrow> 's \<Rightarrow> fault + 's" where
  "for_loop i n body s =
     (if i < n
      then (case body i s of Inl e \<Rightarrow> Inl e | Inr s' \<Rightarrow> for_loop (i + 1) n body s')
      else Inr s)"
  by pat_completeness auto
termination
  by (relation "measure (\<lambda>(i, n, body, s). nat (n - i))") auto

text \<open>
  \<^verbatim>\<open>std::rand()\<close> after \<^verbatim>\<open>std::srand(seed)\<close> is a fixed sequence of non-negative
  numbers: the model takes the sequence as an argument and threads the number of
  values drawn so far.
\<close>

type_synonym rand_sequence = "nat \<Rightarrow> nat"

subsection \<open>EvaluateRegistration and RegistrationICP\<close>

definition EvaluateRegistration ::
  "(PointCloud \<Rightarrow> KDTreeFlann) \<Rightarrow> PointCloud \<Rightarrow> PointCloud \<Rightarrow> real \<Rightarrow> mat4
   \<Rightarrow> RegistrationResult" where
  "EvaluateRegistration SetGeometry source target max_correspondence_distance
       transformation' =
     (let kdtree = SetGeometry target;
          pcd = (if isIdentity transformation' = False
                 then Transform transformation' source else source)
      in GetRegistrationResultAndCorrespondences pcd target kdtree
           max_correspondence_distance transformation')"

text \<open>
  The ICP loop. Its state is (\<open>transformation\<close>, \<open>pcd\<close>, \<open>result\<close>); the last argument
  is a history that the C++ code does not keep: one pair (\<open>backup\<close>, \<open>result\<close>) for
  every refinement step carried out, in order. The returned result does not depend
  on it.
\<close>

type_synonym icp_history = "(RegistrationResult \<times> RegistrationResult) list"

function icp_loop ::
  "TransformationEstimation \<Rightarrow> PointCloud \<Rightarrow> KDTreeFlann \<Rightarrow> real
   \<Rightarrow> ICPConvergenceCriteria \<Rightarrow> int \<Rightarrow> mat4 \<times> PointCloud \<times> RegistrationResult
   \<Rightarrow> icp_history \<Rightarrow> RegistrationResult \<times> icp_history" where
  "icp_loop estimation target kdtree max_distance criteria i (transformation', pcd, result) h =
     (if i < ICPConvergenceCriteria.max_iteration criteria
      then
        let update = estimation pcd target (correspondence_set result);
            transformation' = mat_mul update transformation';
            pcd = Transform update pcd;
            backup = result;
            result = GetRegistrationResultAndCorrespondences pcd target kdtree
                       max_distance transformation'
        in if \<bar>fitness backup - fitness result\<bar> < relative_fitness criteria \<and>
              \<bar>inlier_rmse backup - inlier_rmse result\<bar> < relative_rmse criteria
           then (result, h @ [(backup, result)])
           else icp_loop estimation target kdtree max_distance criteria (i + 1)
                  (transformation', pcd, result) (h @ [(backup, result)])
      else (result, h))"
  by pat_completeness auto
termination
  by (relation "measure (\<lambda>(estimation, target, kdtree, max_distance, criteria, i, st, h).
        nat (ICPConvergenceCriteria.max_iteration criteria - i))") auto

definition RegistrationICP_history ::
  "(PointCloud \<Rightarrow> KDTreeFlann) \<Rightarrow> PointCloud \<Rightarrow> PointCloud \<Rightarrow> real \<Rightarrow> mat4
   \<Rightarrow> TransformationEstimation \<Rightarrow> ICPConvergenceCriteria
   \<Rightarrow> RegistrationResult \<times> icp_history" where
  "RegistrationICP_history SetGeometry source target max_correspondence_distance init
       estimation criteria =
     (if max_correspondence_distance \<le> 0 then (RegistrationResult_of init, [])
      else
        let transformation' = init;
            kdtree = SetGeometry target;
            pcd = (if isIdentity init = False then Transform init source else source);
            result = GetRegistrationResultAndCorrespondences pcd target kdtree
                       max_correspondence_distance transformation'
        in icp_loop estimation target kdtree max_correspondence_distance criteria 0
             (transformation', pcd, result) [])"

definition RegistrationICP ::
  "(PointCloud \<Rightarrow> KDTreeFlann) \<Rightarrow> PointCloud \<Rightarrow> PointCloud \<Rightarrow> real \<Rightarrow> mat4
   \<Rightarrow> TransformationEstimation \<Rightarrow> ICPConvergenceCriteria \<Rightarrow> RegistrationResult" where
  "RegistrationICP SetGeometry source target max_correspondence_distance init
       estimation criteria =
     fst (RegistrationICP_history SetGeometry source target max_correspondence_distance
            init estimation criteria)"

subsection \<open>RegistrationRANSACBasedOnCorrespondence\<close>

text \<open>
  The inner loop fills \<open>ransac_corres[j]\<close> with \<open>corres[rand() % size]\<close>. The state is
  (\<open>ransac_corres\<close>, number of random values drawn). The vector \<open>ransac_corres\<close> has
  \<open>ransac_n\<close> entries, so the write at \<open>j < ransac_n\<close> is always in range; its
  initial entries, which are overwritten before they are read, are taken as (0, 0).
\<close>

definition sample_correspondence ::
  "rand_sequence \<Rightarrow> CorrespondenceSet \<Rightarrow> int \<Rightarrow> CorrespondenceSet \<times> nat
   \<Rightarrow> fault + CorrespondenceSet \<times> nat" where
  "sample_correspondence rand corres j st =
     (case st of (ransac_corres, drawn) \<Rightarrow>
        if int (length corres) = 0 then Inl DivideByZero
        else
          (case at_index corres (int (rand drawn) mod int (length corres)) of
             Inl e \<Rightarrow> Inl e
           | Inr c \<Rightarrow> Inr (ransac_corres[nat j := c], drawn + 1)))"

text \<open>
  The outer loop. Its state is (values drawn, \<open>ransac_corres\<close>, \<open>result\<close>); the last
  argument is a history that the C++ code does not keep: one triple
  (\<open>ransac_corres\<close>, \<open>transformation\<close>, \<open>this_result\<close>) for every iteration carried
  out, in order.
\<close>

type_synonym ransac_history = "(CorrespondenceSet \<times> mat4 \<times> RegistrationResult) list"

function ransac_correspondence_loop ::
  "PointCloud \<Rightarrow> PointCloud \<Rightarrow> CorrespondenceSet \<Rightarrow> real \<Rightarrow> TransformationEstimation
   \<Rightarrow> int \<Rightarrow> RANSACConvergenceCriteria \<Rightarrow> rand_sequence \<Rightarrow> int
   \<Rightarrow> nat \<times> CorrespondenceSet \<times> RegistrationResult \<Rightarrow> ransac_history
   \<Rightarrow> fault + RegistrationResult \<times> ransac_history" where
  "ransac_correspondence_loop source target corres max_distance estimation ransac_n
       criteria rand itr (drawn, ransac_corres, result) h =
     (if itr < max_iteration criteria \<and> itr < max_validation criteria
      then
        (case for_loop 0 ransac_n (sample_correspondence rand corres)
                (ransac_corres, drawn) of
           Inl e \<Rightarrow> Inl e
         | Inr (ransac_corres, drawn) \<Rightarrow>
             let transformation' = estimation source target ransac_corres;
                 pcd = Transform transformation' source
             in (case EvaluateRANSACBasedOnCorrespondence pcd target corres
                        max_distance transformation' of
                   Inl e \<Rightarrow> Inl e
                 | Inr this_result \<Rightarrow>
                     ransac_correspondence_loop source target corres max_distance
                       estimation ransac_n criteria rand (itr + 1)
                       (drawn, ransac_corres,
                        if fitness this_result > fitness result \<or>
                           (fitness this_result = fitness result \<and>
                            inlier_rmse this_result < inlier_rmse result)
                        then this_result else result)
                       (h @ [(ransac_corres, transformation', this_result)])))
      else Inr (result, h))"
  by pat_completeness auto
termination
  by (relation "measure (\<lambda>(source, target, corres, max_distance, estimation, ransac_n,
        criteria, rand, itr, st, h). nat (max_iteration criteria - itr))") auto

definition RegistrationRANSACBasedOnCorrespondence_history ::
  "rand_sequence \<Rightarrow> PointCloud \<Rightarrow> PointCloud \<Rightarrow> CorrespondenceSet \<Rightarrow> real
   \<Rightarrow> TransformationEstimation \<Rightarrow> int \<Rightarrow> RANSACConvergenceCriteria
   \<Rightarrow> fault + RegistrationResult \<times> ransac_history" where
  "RegistrationRANSACBasedOnCorrespondence_history rand source target corres
       max_correspondence_distance estimation ransac_n criteria =
     (if ransac_n < 3 \<or> int (length corres) < ransac_n \<or> max_correspondence_distance \<le> 0
      then Inr (RegistrationResult_default, [])
      else
        ransac_correspondence_loop source target corres max_correspondence_distance
          estimation ransac_n criteria rand 0
          (0, replicate (nat ransac_n) (0, 0), RegistrationResult_default) [])"

definition RegistrationRANSACBasedOnCorrespondence ::
  "rand_sequence \<Rightarrow> PointCloud \<Rightarrow> PointCloud \<Rightarrow> CorrespondenceSet \<Rightarrow> real
   \<Rightarrow> TransformationEstimation \<Rightarrow> int \<Rightarrow> RANSACConvergenceCriteria
   \<Rightarrow> fault + RegistrationResult" where
  "RegistrationRANSACBasedOnCorrespondence rand source target corres
       max_correspondence_distance estimation ransac_n criteria =
     map_sum id fst
       (RegistrationRANSACBasedOnCorrespondence_history rand source target corres
          max_correspondence_distance estimation ransac_n criteria)"

subsection \<open>RegistrationRANSACBasedOnFeatureMatching\<close>

datatype debug_message =
  Found_a_feature_without_neighbors
| RANSAC_Fitness_RMSE real real

text \<open>
  The variables of the single worker. \<open>total_validation\<close> and \<open>finished_validation\<close>
  are the shared variables of the C++ code; \<open>printed\<close> collects the \<^verbatim>\<open>PrintDebug\<close>
  calls of the driver; \<open>validated\<close> is a history that the C++ code does not keep: every
  \<open>this_result\<close> that reached the comparison with \<open>result_private\<close>, in order.
\<close>

record worker =
  drawn :: nat
  ransac_corres :: CorrespondenceSet
  result_private :: RegistrationResult
  total_validation :: int
  finished_validation :: bool
  printed :: "debug_message list"
  validated :: "RegistrationResult list"

text \<open>
  The sampling loop body for index \<open>j\<close>: a random source index, then the nearest
  target feature of its descriptor column.
\<close>

definition sample_feature_match ::
  "rand_sequence \<Rightarrow> PointCloud \<Rightarrow> Feature \<Rightarrow> KDTreeFlann_feature \<Rightarrow> int \<Rightarrow> worker
   \<Rightarrow> fault + worker" where
  "sample_feature_match rand source source_feature kdtree_feature j w =
     (if int (length source) = 0 then Inl DivideByZero
      else
        let s = int (rand (drawn w)) mod int (length source);
            w = w\<lparr>drawn := drawn w + 1\<rparr>
        in (case at_index source_feature s of
              Inl e \<Rightarrow> Inl e
            | Inr column \<Rightarrow>
                (case kdtree_feature column 1 of
                   [] \<Rightarrow>
                     Inr (w\<lparr>printed := printed w @ [Found_a_feature_without_neighbors],
                            ransac_corres := (ransac_corres w)[nat j := (s, 0)]\<rparr>)
                 | (index, dist2) # _ \<Rightarrow>
                     Inr (w\<lparr>ransac_corres := (ransac_corres w)[nat j := (s, index)]\<rparr>))))"

text \<open>
  The two loops over \<open>checkers\<close>: the value of \<open>check\<close> after the loop, where
  \<open>alignment\<close> is the value of \<open>require_pointcloud_alignment_\<close> the loop selects.
\<close>

fun run_checkers ::
  "bool \<Rightarrow> CorrespondenceChecker list \<Rightarrow> PointCloud \<Rightarrow> PointCloud \<Rightarrow> CorrespondenceSet
   \<Rightarrow> mat4 \<Rightarrow> bool" where
  "run_checkers alignment [] source target corres T = True"
| "run_checkers alignment (checker # rest) source target corres T =
     (if require_pointcloud_alignment checker = alignment \<and>
         Check checker source target corres T = False
      then False
      else run_checkers alignment rest source target corres T)"

text \<open>
  One pass of the outer loop body. \<open>uninitialized\<close> stands for the value of the local
  \<open>transformation\<close> before its first assignment, which the checkers of the first loop
  receive.
\<close>

definition feature_iteration ::
  "rand_sequence \<Rightarrow> mat4 \<Rightarrow> PointCloud \<Rightarrow> PointCloud \<Rightarrow> Feature \<Rightarrow> KDTreeFlann
   \<Rightarrow> KDTreeFlann_feature \<Rightarrow> real \<Rightarrow> TransformationEstimation \<Rightarrow> int
   \<Rightarrow> CorrespondenceChecker list \<Rightarrow> RANSACConvergenceCriteria \<Rightarrow> int \<Rightarrow> worker
   \<Rightarrow> fault + worker" where
  "feature_iteration rand uninitialized source target source_feature kdtree
       kdtree_feature max_distance estimation ransac_n checkers criteria itr w =
     (if \<not> finished_validation w
      then
        (case for_loop 0 ransac_n
                (sample_feature_match rand source source_feature kdtree_feature) w of
           Inl e \<Rightarrow> Inl e
         | Inr w \<Rightarrow>
             if run_checkers False checkers source target (ransac_corres w) uninitialized
                = False
             then Inr w
             else
               let transformation' = estimation source target (ransac_corres w)
               in if run_checkers True checkers source target (ransac_corres w)
                       transformation' = False
                  then Inr w
                  else
                    let pcd = Transform transformation' source;
                        this_result = GetRegistrationResultAndCorrespondences pcd target
                                        kdtree max_distance transformation';
                        w = w\<lparr>validated := validated w @ [this_result]\<rparr>;
                        w = (if fitness this_result > fitness (result_private w) \<or>
                                (fitness this_result = fitness (result_private w) \<and>
                                 inlier_rmse this_result < inlier_rmse (result_private w))
                             then w\<lparr>result_private := this_result\<rparr> else w);
                        w = w\<lparr>total_validation := total_validation w + 1\<rparr>
                    in if total_validation w \<ge> max_validation criteria
                       then Inr (w\<lparr>finished_validation := True\<rparr>)
                       else Inr w)
      else Inr w)"

definition feature_worker ::
  "rand_sequence \<Rightarrow> mat4 \<Rightarrow> (PointCloud \<Rightarrow> KDTreeFlann) \<Rightarrow> (Feature \<Rightarrow> KDTreeFlann_feature)
   \<Rightarrow> PointCloud \<Rightarrow> PointCloud \<Rightarrow> Feature \<Rightarrow> Feature \<Rightarrow> real
   \<Rightarrow> TransformationEstimation \<Rightarrow> int \<Rightarrow> CorrespondenceChecker list
   \<Rightarrow> RANSACConvergenceCriteria \<Rightarrow> fault + worker" where
  "feature_worker rand uninitialized SetGeometry SetFeature source target source_feature
       target_feature max_distance estimation ransac_n checkers criteria =
     (let kdtree = SetGeometry target;
          kdtree_feature = SetFeature target_feature
      in for_loop 0 (max_iteration criteria)
           (feature_iteration rand uninitialized source target source_feature kdtree
              kdtree_feature max_distance estimation ransac_n checkers criteria)
           \<lparr>drawn = 0, ransac_corres = replicate (nat ransac_n) (0, 0),
            result_private = RegistrationResult_default, total_validation = 0,
            finished_validation = False, printed = [], validated = []\<rparr>)"

text \<open>
  The block after the loop (lines 319 to 327 of the source): the worker compares its
  \<open>result_private\<close> with the shared \<open>result\<close> and stores it there when it is better.
\<close>

definition reduce_worker :: "RegistrationResult \<Rightarrow> RegistrationResult \<Rightarrow> RegistrationResult" where
  "reduce_worker result result_private' =
     (if fitness result_private' > fitness result \<or>
         (fitness result_private' = fitness result \<and>
          inlier_rmse result_private' < inlier_rmse result)
      then result_private' else result)"

text \<open>
  The block is a critical section that every worker of the team passes once, one
  worker at a time: \<open>join_workers result locals\<close> is the shared \<open>result\<close> after the
  workers whose local bests are \<open>locals\<close> have passed it in that order. Without
  OpenMP the team is the one worker of \<open>feature_worker\<close>.
\<close>

fun join_workers :: "RegistrationResult \<Rightarrow> RegistrationResult list \<Rightarrow> RegistrationResult" where
  "join_workers result [] = result"
| "join_workers result (result_private' # rest) =
     join_workers (reduce_worker result result_private') rest"

definition RegistrationRANSACBasedOnFeatureMatching ::
  "rand_sequence \<Rightarrow> mat4 \<Rightarrow> (PointCloud \<Rightarrow> KDTreeFlann) \<Rightarrow> (Feature \<Rightarrow> KDTreeFlann_feature)
   \<Rightarrow> PointCloud \<Rightarrow> PointCloud \<Rightarrow> Feature \<Rightarrow> Feature \<Rightarrow> real
   \<Rightarrow> TransformationEstimation \<Rightarrow> int \<Rightarrow> CorrespondenceChecker list
   \<Rightarrow> RANSACConvergenceCriteria \<Rightarrow> fault + RegistrationResult \<times> debug_message list" where
  "RegistrationRANSACBasedOnFeatureMatching rand uninitialized SetGeometry SetFeature
       source target source_feature target_feature max_correspondence_distance
       estimation ransac_n checkers criteria =
     (if ransac_n < 3 \<or> max_correspondence_distance \<le> 0
      then Inr (RegistrationResult_default, [])
      else
        let result = RegistrationResult_default
        in (case feature_worker rand uninitialized SetGeometry SetFeature source target
                   source_feature target_feature max_correspondence_distance estimation
                   ransac_n checkers criteria of
              Inl e \<Rightarrow> Inl e
            | Inr w \<Rightarrow>
                let result = join_workers result [result_private w]
                in Inr (result,
                        printed w @ [RANSAC_Fitness_RMSE (fitness result)
                                       (inlier_rmse result)])))"

subsection \<open>Notions of the specification\<close>

text \<open>
  The definitions of this subsection follow the words of the specification, not the
  code: they are what the code is compared with.
\<close>



definition reported_dist2 :: "KDTreeFlann \<Rightarrow> real \<Rightarrow> PointCloud \<Rightarrow> int \<times> int \<Rightarrow> real" where
  "reported_dist2 kdtree max_distance source c =
     snd (hd (kdtree (source ! nat (fst c)) max_distance 1))"

definition reports_nonnegative :: "KDTreeFlann \<Rightarrow> bool" where
  "reports_nonnegative kdtree =
     (\<forall>query radius max_nn. \<forall>jd \<in> set (kdtree query radius max_nn). 0 \<le> snd jd)"

definition valid_correspondences ::
  "PointCloud \<Rightarrow> PointCloud \<Rightarrow> CorrespondenceSet \<Rightarrow> bool" where
  "valid_correspondences source target corres =
     list_all (\<lambda>c. 0 \<le> fst c \<and> fst c < int (length source) \<and>
                    0 \<le> snd c \<and> snd c < int (length target)) corres"

definition pair_dis2 :: "PointCloud \<Rightarrow> PointCloud \<Rightarrow> int \<times> int \<Rightarrow> real" where
  "pair_dis2 source target c =
     squaredNorm (sub3 (source ! nat (fst c)) (target ! nat (snd c)))"

definition inliers ::
  "PointCloud \<Rightarrow> PointCloud \<Rightarrow> real \<Rightarrow> CorrespondenceSet \<Rightarrow> CorrespondenceSet" where
  "inliers source target max_distance corres =
     filter (\<lambda>c. pair_dis2 source target c < max_distance * max_distance) corres"

definition replaces :: "RegistrationResult \<Rightarrow> RegistrationResult \<Rightarrow> bool" where
  "replaces cand best =
     (fitness cand > fitness best \<or>
      (fitness cand = fitness best \<and> inlier_rmse cand < inlier_rmse best))"

definition best_of :: "RegistrationResult \<Rightarrow> RegistrationResult \<Rightarrow> RegistrationResult" where
  "best_of best cand = (if replaces cand best then cand else best)"

definition converged ::
  "ICPConvergenceCriteria \<Rightarrow> RegistrationResult \<times> RegistrationResult \<Rightarrow> bool" where
  "converged criteria step =
     (\<bar>fitness (fst step) - fitness (snd step)\<bar> < relative_fitness criteria \<and>
      \<bar>inlier_rmse (fst step) - inlier_rmse (snd step)\<bar> < relative_rmse criteria)"

definition claimed_invariant :: "RegistrationResult \<Rightarrow> bool" where
  "claimed_invariant r =
     (((correspondence_set r = []) = (fitness r = 0)) \<and>
      ((fitness r = 0) = (inlier_rmse r = 0)))"

definition evaluator_invariant :: "RegistrationResult \<Rightarrow> bool" where
  "evaluator_invariant r =
     (((correspondence_set r = []) = (fitness r = 0)) \<and>
      (fitness r = 0 \<longrightarrow> inlier_rmse r = 0))"

definition scorer_invariant :: "RegistrationResult \<Rightarrow> bool" where
  "scorer_invariant r =
     (fitness r = 0 \<longrightarrow> inlier_rmse r = 0 \<and> correspondence_set r = [])"

section \<open>Properties\<close>

declare for_loop.simps [simp del]
declare icp_loop.simps [simp del]
declare ransac_correspondence_loop.simps [simp del]

subsection \<open>Loops\<close>



lemma for_loop_invariant:
  assumes "for_loop i n body s = Inr s'"
    and "I i s"
    and "\<And>k t t'. i \<le> k \<Longrightarrow> k < n \<Longrightarrow> I k t \<Longrightarrow> body k t = Inr t' \<Longrightarrow> I (k + 1) t'"
  shows "I (max i n) s'"
  using assms
proof (induction i n body s rule: for_loop.induct)
  case (1 i n body s)
  show ?case
  proof (cases "i < n")
    case False
    with "1.prems"(1,2) show ?thesis by (simp add: max_def for_loop.simps[of i])
  next
    case True
    with "1.prems"(1) obtain t where b: "body i s = Inr t"
      and r: "for_loop (i + 1) n body t = Inr s'"
      by (auto simp: for_loop.simps[of i] split: sum.splits)
    have It: "I (i + 1) t" using "1.prems"(3)[OF _ True "1.prems"(2) b] by simp
    have "I (max (i + 1) n) s'"
    proof (rule "1.IH"[OF True b r It])
      fix k t t' assume "i + 1 \<le> k" "k < n" "I k t" "body k t = Inr t'"
      then show "I (k + 1) t'" using "1.prems"(3)[of k t t'] by simp
    qed
    with True show ?thesis by (simp add: max_def)
  qed
qed

lemma for_loop_total:
  assumes "I i s"
    and "\<And>k t. i \<le> k \<Longrightarrow> k < n \<Longrightarrow> I k t \<Longrightarrow> \<exists>t'. body k t = Inr t' \<and> I (k + 1) t'"
  shows "\<exists>s'. for_loop i n body s = Inr s' \<and> I (max i n) s'"
  using assms
proof (induction i n body s rule: for_loop.induct)
  case (1 i n body s)
  show ?case
  proof (cases "i < n")
    case False
    with "1.prems"(1) show ?thesis by (simp add: max_def for_loop.simps[of i])
  next
    case True
    from "1.prems"(2)[OF _ True "1.prems"(1)] obtain t where b: "body i s = Inr t"
      and It: "I (i + 1) t" by auto
    have "\<exists>s'. for_loop (i + 1) n body t = Inr s' \<and> I (max (i + 1) n) s'"
    proof (rule "1.IH"[OF True b It])
      fix k t assume "i + 1 \<le> k" "k < n" "I k t"
      then show "\<exists>t'. body k t = Inr t' \<and> I (k + 1) t'" using "1.prems"(2)[of k t] by simp
    qed
    with True b show ?thesis by (simp add: max_def for_loop.simps[of i])
  qed
qed



lemma evaluator_loop_result:
  "evaluator_loop kd md ps i (e, cs) = (e', cs') \<Longrightarrow>
   \<exists>new. cs' = cs @ new \<and>
     e' = e + sum_list (map (\<lambda>c. snd (hd (kd (ps ! nat (fst c - i)) md 1))) new) \<and>
     (\<forall>c \<in> set new. i \<le> fst c \<and> fst c < i + int (length ps) \<and>
        kd (ps ! nat (fst c - i)) md 1 \<noteq> [] \<and>
        snd c = fst (hd (kd (ps ! nat (fst c - i)) md 1))) \<and>
     length new \<le> length ps"
proof (induction ps arbitrary: i e cs)
  case Nil
  then show ?case by simp
next
  case (Cons p rest)
  have shift: "\<And>k. i + 1 \<le> k \<Longrightarrow> (p # rest) ! nat (k - i) = rest ! nat (k - (i + 1))"
  proof -
    fix k :: int assume "i + 1 \<le> k"
    then have "nat (k - i) = Suc (nat (k - (i + 1)))" by simp
    then show "(p # rest) ! nat (k - i) = rest ! nat (k - (i + 1))" by simp
  qed
  show ?case
  proof (cases "kd p md 1")
    case Nil
    with Cons.prems have "evaluator_loop kd md rest (i + 1) (e, cs) = (e', cs')" by simp
    from Cons.IH[OF this] obtain new where n: "cs' = cs @ new"
      "e' = e + sum_list (map (\<lambda>c. snd (hd (kd (rest ! nat (fst c - (i + 1))) md 1))) new)"
      "\<forall>c \<in> set new. i + 1 \<le> fst c \<and> fst c < i + 1 + int (length rest) \<and>
        kd (rest ! nat (fst c - (i + 1))) md 1 \<noteq> [] \<and>
        snd c = fst (hd (kd (rest ! nat (fst c - (i + 1))) md 1))"
      "length new \<le> length rest" by blast
    have eq: "map (\<lambda>c. snd (hd (kd (rest ! nat (fst c - (i + 1))) md 1))) new =
              map (\<lambda>c. snd (hd (kd ((p # rest) ! nat (fst c - i)) md 1))) new"
      using n(3) by (intro map_cong refl) (simp add: shift)
    show ?thesis
      apply (rule exI[of _ new])
      using n eq by (auto simp: shift)
  next
    case (Cons jd tl)
    obtain j d where jd: "jd = (j, d)" by (cases jd)
    with Cons Cons.prems
    have "evaluator_loop kd md rest (i + 1) (e + d, cs @ [(i, j)]) = (e', cs')" by simp
    from Cons.IH[OF this] obtain new where n: "cs' = (cs @ [(i, j)]) @ new"
      "e' = e + d + sum_list (map (\<lambda>c. snd (hd (kd (rest ! nat (fst c - (i + 1))) md 1))) new)"
      "\<forall>c \<in> set new. i + 1 \<le> fst c \<and> fst c < i + 1 + int (length rest) \<and>
        kd (rest ! nat (fst c - (i + 1))) md 1 \<noteq> [] \<and>
        snd c = fst (hd (kd (rest ! nat (fst c - (i + 1))) md 1))"
      "length new \<le> length rest" by blast
    have eq: "map (\<lambda>c. snd (hd (kd (rest ! nat (fst c - (i + 1))) md 1))) new =
              map (\<lambda>c. snd (hd (kd ((p # rest) ! nat (fst c - i)) md 1))) new"
      using n(3) by (intro map_cong refl) (simp add: shift)
    show ?thesis
      apply (rule exI[of _ "(i, j) # new"])
      using n eq Cons jd by (auto simp: shift)
  qed
qed

subsection \<open>The Evaluator\<close>


lemma reported_dist2_fun:
  "reported_dist2 kd md source = (\<lambda>c. snd (hd (kd (source ! nat (fst c)) md 1)))"
  by (simp add: fun_eq_iff reported_dist2_def)

lemma evaluator_unfold:
  assumes "0 < md"
  shows "\<exists>cs. length cs \<le> length source \<and>
     (\<forall>c \<in> set cs. 0 \<le> fst c \<and> fst c < int (length source) \<and>
         kd (source ! nat (fst c)) md 1 \<noteq> []) \<and>
     GetRegistrationResultAndCorrespondences source target kd md T =
       (if cs = [] then RegistrationResult_of T
        else \<lparr>transformation = T, correspondence_set = cs,
              fitness = real (length cs) / real (length source),
              inlier_rmse = sqrt (sum_list (map (reported_dist2 kd md source) cs)
                                    / real (length cs))\<rparr>)"
proof -
  obtain e cs where l: "evaluator_loop kd md source 0 (0, []) = (e, cs)"
    by (cases "evaluator_loop kd md source 0 (0, [])")
  from evaluator_loop_result[OF l] have
    e: "e = sum_list (map (reported_dist2 kd md source) cs)"
    and r: "\<forall>c \<in> set cs. 0 \<le> fst c \<and> fst c < int (length source) \<and>
         kd (source ! nat (fst c)) md 1 \<noteq> []"
    and n: "length cs \<le> length source"
    by (auto simp: reported_dist2_fun)
  have "GetRegistrationResultAndCorrespondences source target kd md T =
       (if cs = [] then RegistrationResult_of T
        else \<lparr>transformation = T, correspondence_set = cs,
              fitness = real (length cs) / real (length source),
              inlier_rmse = sqrt (sum_list (map (reported_dist2 kd md source) cs)
                                    / real (length cs))\<rparr>)"
    using assms l e
    by (simp add: GetRegistrationResultAndCorrespondences_def RegistrationResult_of_def Let_def)
  with r n show ?thesis by blast
qed

lemma evaluator_invariant_holds:
  "evaluator_invariant (GetRegistrationResultAndCorrespondences source target kd md T)"
proof (cases "0 < md")
  case False
  then show ?thesis
    by (simp add: GetRegistrationResultAndCorrespondences_def RegistrationResult_of_def
        evaluator_invariant_def)
next
  case True
  from evaluator_unfold[OF True, of source kd target T] obtain cs where
    n: "length cs \<le> length source" and
    g: "GetRegistrationResultAndCorrespondences source target kd md T =
       (if cs = [] then RegistrationResult_of T
        else \<lparr>transformation = T, correspondence_set = cs,
              fitness = real (length cs) / real (length source),
              inlier_rmse = sqrt (sum_list (map (reported_dist2 kd md source) cs)
                                    / real (length cs))\<rparr>)" by blast
  show ?thesis
  proof (cases "cs = []")
    case True
    with g show ?thesis by (simp add: RegistrationResult_of_def evaluator_invariant_def)
  next
    case False
    then have "0 < length cs" by simp
    with n have "0 < length source" by linarith
    with False g show ?thesis by (simp add: evaluator_invariant_def)
  qed
qed

text \<open>
  C7. For a non-empty source and a positive distance bound, the Evaluator's fitness is
  the number of correspondences divided by the number of source points, and, when
  there is a correspondence, its inlier RMSE is the square root of the sum of the
  squared distances reported for the correspondences divided by their number. So
  the fitness lies between 0 and 1, and the RMSE is not negative (the spatial index
  is assumed to report squared distances that are not negative).
\<close>

theorem evaluator_fitness_and_rmse:
  assumes "source \<noteq> []" and "0 < max_distance" and "reports_nonnegative kdtree"
  shows "fitness (GetRegistrationResultAndCorrespondences source target kdtree max_distance T) =
           real (length (correspondence_set
             (GetRegistrationResultAndCorrespondences source target kdtree max_distance T)))
           / real (length source) \<and>
         (correspondence_set
             (GetRegistrationResultAndCorrespondences source target kdtree max_distance T) \<noteq> []
          \<longrightarrow> inlier_rmse
             (GetRegistrationResultAndCorrespondences source target kdtree max_distance T) =
           sqrt (sum_list (map (reported_dist2 kdtree max_distance source)
               (correspondence_set
                 (GetRegistrationResultAndCorrespondences source target kdtree max_distance T)))
             / real (length (correspondence_set
                 (GetRegistrationResultAndCorrespondences source target kdtree max_distance T))))) \<and>
         0 \<le> fitness (GetRegistrationResultAndCorrespondences source target kdtree max_distance T) \<and>
         fitness (GetRegistrationResultAndCorrespondences source target kdtree max_distance T) \<le> 1 \<and>
         0 \<le> inlier_rmse (GetRegistrationResultAndCorrespondences source target kdtree max_distance T)"
proof -
  let ?r = "GetRegistrationResultAndCorrespondences source target kdtree max_distance T"
  from evaluator_unfold[OF assms(2), of source kdtree target T] obtain cs where
    n: "length cs \<le> length source" and
    v: "\<forall>c \<in> set cs. 0 \<le> fst c \<and> fst c < int (length source) \<and>
         kdtree (source ! nat (fst c)) max_distance 1 \<noteq> []" and
    g: "?r =
       (if cs = [] then RegistrationResult_of T
        else \<lparr>transformation = T, correspondence_set = cs,
              fitness = real (length cs) / real (length source),
              inlier_rmse = sqrt (sum_list (map (reported_dist2 kdtree max_distance source) cs)
                                    / real (length cs))\<rparr>)" by blast
  have pos: "0 < length source" using assms(1) by simp
  show ?thesis
  proof (cases "cs = []")
    case True
    with g show ?thesis by (simp add: RegistrationResult_of_def)
  next
    case False
    have "0 \<le> reported_dist2 kdtree max_distance source c" if "c \<in> set cs" for c
    proof -
      from v that have "kdtree (source ! nat (fst c)) max_distance 1 \<noteq> []" by blast
      then have "hd (kdtree (source ! nat (fst c)) max_distance 1)
                 \<in> set (kdtree (source ! nat (fst c)) max_distance 1)" by simp
      with assms(3) show ?thesis
        unfolding reported_dist2_def reports_nonnegative_def by blast
    qed
    then have s: "0 \<le> sum_list (map (reported_dist2 kdtree max_distance source) cs)"
      by (intro sum_list_nonneg) auto
    from False g n pos s show ?thesis by simp
  qed
qed

lemma SearchHybrid_spec_nonnegative: "reports_nonnegative (SearchHybrid_spec target)"
  by (auto simp: reports_nonnegative_def SearchHybrid_spec_def squaredNorm_def sub3_def
      dest!: in_set_takeD split: prod.splits)

theorem evaluator_fitness_and_rmse_witness:
  "[(0, 0, 0)] \<noteq> ([] :: PointCloud) \<and> (0 :: real) < 1 \<and>
   reports_nonnegative (SearchHybrid_spec [(0, 0, 1)]) \<and>
   GetRegistrationResultAndCorrespondences [(0, 0, 0)] [(0, 0, 1)]
     (SearchHybrid_spec [(0, 0, 1)]) 1 (Identity 4) =
     \<lparr>transformation = Identity 4, correspondence_set = [(0, 0)], fitness = 1,
      inlier_rmse = 1\<rparr> \<and>
   fitness (GetRegistrationResultAndCorrespondences [(0, 0, 0)] [(0, 0, 1)]
     (SearchHybrid_spec [(0, 0, 1)]) 1 (Identity 4)) \<le> 1"
  using evaluator_fitness_and_rmse [of "[(0, 0, 0)]" 1 "SearchHybrid_spec [(0, 0, 1)]"
      "[(0, 0, 1)]" "Identity 4"] SearchHybrid_spec_nonnegative [of "[(0, 0, 1)]"]
  by (simp add: GetRegistrationResultAndCorrespondences_def RegistrationResult_of_def
      SearchHybrid_spec_def squaredNorm_def sub3_def)

subsection \<open>The information matrix\<close>

lemma information_loop_first_components:
  "information_loop target (map (\<lambda>c. (f c, snd c)) cs) G = information_loop target cs G"
  by (induction cs arbitrary: G) (simp_all add: information_step_def split: sum.splits)

text \<open>
  C1. The claim is that the returned matrix is the identity plus the accumulated
  outer products, so that an empty correspondence set gives the identity. The code
  seeds both \<open>GTG\<close> and \<open>GTG_private\<close> with the identity and adds the second to the
  first: on the empty correspondence set it returns twice the identity.
\<close>

theorem information_matrix_empty_set:
  "GetInformationMatrixFromRegistrationResult [] [] RegistrationResult_default =
     Inr [[2, 0, 0, 0, 0, 0], [0, 2, 0, 0, 0, 0], [0, 0, 2, 0, 0, 0],
          [0, 0, 0, 2, 0, 0], [0, 0, 0, 0, 2, 0], [0, 0, 0, 0, 0, 2]] \<and>
   GetInformationMatrixFromRegistrationResult [] [] RegistrationResult_default \<noteq>
     Inr (Identity 6)"
  by (simp add: GetInformationMatrixFromRegistrationResult_def RegistrationResult_default_def
      RegistrationResult_of_def Identity_def mat_add_def upt_rec)

text \<open>
  C10. The information matrix does not depend on the source cloud: two calls that
  differ only in the source return the same value; nor does it depend on the first
  components of the correspondences.
\<close>

theorem information_matrix_ignores_source:
  "GetInformationMatrixFromRegistrationResult source1 target result =
   GetInformationMatrixFromRegistrationResult source2 target result \<and>
   GetInformationMatrixFromRegistrationResult source1 target
     (result\<lparr>correspondence_set := map (\<lambda>c. (f c, snd c)) (correspondence_set result)\<rparr>) =
   GetInformationMatrixFromRegistrationResult source1 target result"
  by (simp add: GetInformationMatrixFromRegistrationResult_def
      information_loop_first_components)

subsection \<open>The correspondence scorer\<close>

lemma scorer_loop_valid:
  "valid_correspondences source target corres \<Longrightarrow>
   scorer_loop source target m corres (good, error2) =
     Inr (good + int (length (filter (\<lambda>c. pair_dis2 source target c < m) corres)),
          error2 + sum_list (map (pair_dis2 source target)
                     (filter (\<lambda>c. pair_dis2 source target c < m) corres)))"
proof (induction corres arbitrary: good error2)
  case Nil
  then show ?case by simp
next
  case (Cons c rest)
  then have v: "valid_correspondences source target rest"
    and c: "0 \<le> fst c" "fst c < int (length source)" "0 \<le> snd c" "snd c < int (length target)"
    by (simp_all add: valid_correspondences_def)
  show ?case
    using c Cons.IH[OF v]
    by (simp add: at_index_def pair_dis2_def Let_def)
qed

lemma scorer_valid:
  assumes "valid_correspondences source target corres"
  shows "EvaluateRANSACBasedOnCorrespondence source target corres md T =
     Inr (if inliers source target md corres = [] then RegistrationResult_of T
          else (RegistrationResult_of T)
            \<lparr>fitness := real (length (inliers source target md corres)) / real (length corres),
             inlier_rmse := sqrt (sum_list (map (pair_dis2 source target)
                                     (inliers source target md corres))
                                  / real (length (inliers source target md corres)))\<rparr>)"
  using scorer_loop_valid[OF assms, of "md * md" 0 0]
  by (simp add: EvaluateRANSACBasedOnCorrespondence_def inliers_def RegistrationResult_of_def)

lemma SearchHybrid_spec_single:
  "0 < md \<Longrightarrow> squaredNorm (sub3 p q) \<le> md * md \<Longrightarrow>
   SearchHybrid_spec [q] p md 1 = [(0, squaredNorm (sub3 p q))]"
  by (simp add: SearchHybrid_spec_def)


text \<open>
  C9. On correspondences whose indices are in range, the scorer counts exactly the
  pairs whose squared distance is strictly below the squared distance bound: its
  fitness is their number divided by the number of pairs, its RMSE the root of their
  mean squared distance. A pair at distance exactly the bound is not counted by the
  scorer, while the Evaluator, over the reference index of the specification
  (squared distance at most the squared radius), keeps it.
\<close>

theorem scorer_strict_evaluator_inclusive:
  "(valid_correspondences source target corres \<longrightarrow>
      EvaluateRANSACBasedOnCorrespondence source target corres max_distance T =
        Inr (if inliers source target max_distance corres = [] then RegistrationResult_of T
             else (RegistrationResult_of T)
               \<lparr>fitness := real (length (inliers source target max_distance corres))
                            / real (length corres),
                inlier_rmse := sqrt (sum_list (map (pair_dis2 source target)
                                        (inliers source target max_distance corres))
                                  / real (length (inliers source target max_distance corres)))\<rparr>)) \<and>
   (sqrt (squaredNorm (sub3 p q)) = max_distance \<longrightarrow>
      EvaluateRANSACBasedOnCorrespondence [p] [q] [(0, 0)] max_distance T =
        Inr (RegistrationResult_of T)) \<and>
   (sqrt (squaredNorm (sub3 p q)) = max_distance \<and> 0 < max_distance \<longrightarrow>
      GetRegistrationResultAndCorrespondences [p] [q] (SearchHybrid_spec [q]) max_distance T =
        \<lparr>transformation = T, correspondence_set = [(0, 0)], fitness = 1,
         inlier_rmse = max_distance\<rparr>)"
proof (intro conjI impI)
  assume "valid_correspondences source target corres"
  then show "EvaluateRANSACBasedOnCorrespondence source target corres max_distance T =
        Inr (if inliers source target max_distance corres = [] then RegistrationResult_of T
             else (RegistrationResult_of T)
               \<lparr>fitness := real (length (inliers source target max_distance corres))
                            / real (length corres),
                inlier_rmse := sqrt (sum_list (map (pair_dis2 source target)
                                        (inliers source target max_distance corres))
                                  / real (length (inliers source target max_distance corres)))\<rparr>)"
    by (rule scorer_valid)
next
  assume d: "sqrt (squaredNorm (sub3 p q)) = max_distance"
  have nn: "0 \<le> squaredNorm (sub3 p q)"
    by (simp add: squaredNorm_def split: prod.splits)
  have "sqrt (squaredNorm (sub3 p q)) * sqrt (squaredNorm (sub3 p q)) = squaredNorm (sub3 p q)"
    using nn by simp
  with d have sq: "squaredNorm (sub3 p q) = max_distance * max_distance" by simp
  have v: "valid_correspondences [p] [q] [(0, 0)]" by (simp add: valid_correspondences_def)
  show "EvaluateRANSACBasedOnCorrespondence [p] [q] [(0, 0)] max_distance T =
        Inr (RegistrationResult_of T)"
    using sq by (simp add: scorer_valid[OF v] inliers_def pair_dis2_def)
next
  assume a: "sqrt (squaredNorm (sub3 p q)) = max_distance \<and> 0 < max_distance"
  have nn: "0 \<le> squaredNorm (sub3 p q)"
    by (simp add: squaredNorm_def split: prod.splits)
  have "sqrt (squaredNorm (sub3 p q)) * sqrt (squaredNorm (sub3 p q)) = squaredNorm (sub3 p q)"
    using nn by simp
  with a have sq: "squaredNorm (sub3 p q) = max_distance * max_distance" by simp
  have s: "SearchHybrid_spec [q] p max_distance 1 = [(0, squaredNorm (sub3 p q))]"
    using a sq by (simp add: SearchHybrid_spec_single)
  show "GetRegistrationResultAndCorrespondences [p] [q] (SearchHybrid_spec [q]) max_distance T =
        \<lparr>transformation = T, correspondence_set = [(0, 0)], fitness = 1,
         inlier_rmse = max_distance\<rparr>"
    using a s
    by (simp add: GetRegistrationResultAndCorrespondences_def RegistrationResult_of_def)
qed

theorem scorer_strict_evaluator_inclusive_witness:
  "valid_correspondences [(0, 0, 0), (0, 0, 2)] [(0, 0, 1), (0, 0, 2)] [(0, 0), (1, 1)] \<and>
   sqrt (squaredNorm (sub3 (0, 0, 0) (0, 0, 1))) = 1 \<and> (0 :: real) < 1 \<and>
   EvaluateRANSACBasedOnCorrespondence [(0, 0, 0), (0, 0, 2)] [(0, 0, 1), (0, 0, 2)]
     [(0, 0), (1, 1)] 1 (Identity 4) =
     Inr \<lparr>transformation = Identity 4, correspondence_set = [], fitness = 1 / 2,
          inlier_rmse = 0\<rparr> \<and>
   EvaluateRANSACBasedOnCorrespondence [(0, 0, 0)] [(0, 0, 1)] [(0, 0)] 1 (Identity 4) =
     Inr (RegistrationResult_of (Identity 4)) \<and>
   GetRegistrationResultAndCorrespondences [(0, 0, 0)] [(0, 0, 1)]
     (SearchHybrid_spec [(0, 0, 1)]) 1 (Identity 4) =
     \<lparr>transformation = Identity 4, correspondence_set = [(0, 0)], fitness = 1,
      inlier_rmse = 1\<rparr>"
  using scorer_strict_evaluator_inclusive [of "[(0, 0, 0), (0, 0, 2)]"
      "[(0, 0, 1), (0, 0, 2)]" "[(0, 0), (1, 1)]" 1 "Identity 4" "(0, 0, 0)" "(0, 0, 1)"]
  by (simp add: valid_correspondences_def inliers_def pair_dis2_def squaredNorm_def sub3_def
      RegistrationResult_of_def)

subsection \<open>Correspondence RANSAC\<close>

lemma foldl_best_of_cases:
  "P best \<Longrightarrow> (\<forall>c \<in> set cands. P c) \<Longrightarrow> P (foldl best_of best cands)"
  by (induction cands arbitrary: best) (simp_all add: best_of_def)

lemma sample_correspondence_step:
  assumes "corres \<noteq> []" and "0 \<le> k"
  shows "sample_correspondence rand corres k (rc, d) =
           Inr (rc[nat k := corres ! (rand d mod length corres)], d + 1)"
proof -
  have "nat (int (rand d) mod int (length corres)) = rand d mod length corres"
    by (simp add: nat_mod_distrib)
  moreover have "int (rand d) mod int (length corres) < int (length corres)"
    using assms(1) by simp
  ultimately show ?thesis
    using assms by (simp add: sample_correspondence_def at_index_def)
qed

lemma sample_loop_total:
  assumes "corres \<noteq> []" and "length rc = nat n"
  shows "\<exists>rc'. for_loop 0 n (sample_correspondence rand corres) (rc, d) = Inr (rc', d + nat n) \<and>
           length rc' = nat n \<and>
           (\<forall>j < nat n. rc' ! j = corres ! (rand (d + j) mod length corres))"
proof -
  let ?I = "\<lambda>(k :: int) (st :: CorrespondenceSet \<times> nat).
     snd st = d + nat k \<and> length (fst st) = nat n \<and>
     (\<forall>j < nat k. fst st ! j = corres ! (rand (d + j) mod length corres))"
  have "\<exists>s'. for_loop 0 n (sample_correspondence rand corres) (rc, d) = Inr s' \<and>
          ?I (max 0 n) s'"
  proof (rule for_loop_total[where I = ?I])
    show "?I 0 (rc, d)" using assms(2) by simp
  next
    fix k :: int and t :: "CorrespondenceSet \<times> nat"
    assume k: "0 \<le> k" "k < n" and I: "?I k t"
    obtain rc1 d1 where t: "t = (rc1, d1)" by (cases t)
    from I t have d1: "d1 = d + nat k" and len: "length rc1 = nat n"
      and old: "\<forall>j < nat k. rc1 ! j = corres ! (rand (d + j) mod length corres)"
      by simp_all
    have step: "sample_correspondence rand corres k t =
             Inr (rc1[nat k := corres ! (rand d1 mod length corres)], d1 + 1)"
      using sample_correspondence_step[OF assms(1) k(1)] t by simp
    have nk: "nat (k + 1) = Suc (nat k)" using k by simp
    have kn: "nat k < nat n" using k by simp
    have "?I (k + 1) (rc1[nat k := corres ! (rand d1 mod length corres)], d1 + 1)"
      using d1 len old nk kn by (auto simp: less_Suc_eq nth_list_update)
    with step show "\<exists>t'. sample_correspondence rand corres k t = Inr t' \<and> ?I (k + 1) t'"
      by blast
  qed
  then obtain s' where s: "for_loop 0 n (sample_correspondence rand corres) (rc, d) = Inr s'"
    and I: "?I (max 0 n) s'" by blast
  obtain rc' d' where s': "s' = (rc', d')" by (cases s')
  have "nat (max 0 n) = nat n" by simp
  with I s' have "d' = d + nat n" "length rc' = nat n"
    "\<forall>j < nat n. rc' ! j = corres ! (rand (d + j) mod length corres)"
    by simp_all
  with s s' show ?thesis by blast
qed

lemma sample_loop_subset:
  assumes "corres \<noteq> []" and "length rc = nat n"
    and "for_loop 0 n (sample_correspondence rand corres) (rc, d) = Inr (rc', d')"
  shows "length rc' = nat n \<and> set rc' \<subseteq> set corres"
proof -
  from sample_loop_total[OF assms(1,2), of rand d] assms(3)
  have len: "length rc' = nat n"
    and el: "\<forall>j < nat n. rc' ! j = corres ! (rand (d + j) mod length corres)" by auto
  have "x \<in> set corres" if "x \<in> set rc'" for x
  proof -
    from that obtain j where "j < length rc'" "rc' ! j = x" by (auto simp: in_set_conv_nth)
    with len el have "x = corres ! (rand (d + j) mod length corres)" by auto
    moreover have "rand (d + j) mod length corres < length corres" using assms(1) by simp
    ultimately show ?thesis by simp
  qed
  with len show ?thesis by blast
qed

lemma ransac_loop_history:
  assumes "ransac_correspondence_loop source target corres md est n crit rand itr
             (d, rc, result) h = Inr (res, h')"
    and "corres \<noteq> []" and "length rc = nat n"
  shows "\<exists>new. h' = h @ new \<and>
     int (length new) = max 0 (min (max_iteration crit) (max_validation crit) - itr) \<and>
     (\<forall>e \<in> set new. length (fst e) = nat n \<and> set (fst e) \<subseteq> set corres \<and>
        fst (snd e) = est source target (fst e) \<and>
        EvaluateRANSACBasedOnCorrespondence (Transform (fst (snd e)) source) target corres md
          (fst (snd e)) = Inr (snd (snd e))) \<and>
     res = foldl best_of result (map (\<lambda>e. snd (snd e)) new)"
  using assms
proof (induction source target corres md est n crit rand itr "(d, rc, result)" h
    arbitrary: d rc result rule: ransac_correspondence_loop.induct)
  case (1 source target corres md est n crit rand itr d rc result h)
  show ?case
  proof (cases "itr < max_iteration crit \<and> itr < max_validation crit")
    case False
    with "1.prems"(1) have "res = result" "h' = h"
      by (simp_all add: ransac_correspondence_loop.simps[of _ _ _ _ _ _ _ _ itr])
    moreover from False have "max 0 (min (max_iteration crit) (max_validation crit) - itr) = 0"
      by auto
    ultimately show ?thesis by simp
  next
    case True
    from True "1.prems"(1) obtain rc1 d1 this where
      s: "for_loop 0 n (sample_correspondence rand corres) (rc, d) = Inr (rc1, d1)"
      and e: "EvaluateRANSACBasedOnCorrespondence (Transform (est source target rc1) source)
                target corres md (est source target rc1) = Inr this"
      and r: "ransac_correspondence_loop source target corres md est n crit rand (itr + 1)
                (d1, rc1, if fitness this > fitness result \<or>
                           (fitness this = fitness result \<and>
                            inlier_rmse this < inlier_rmse result)
                          then this else result)
                (h @ [(rc1, est source target rc1, this)]) = Inr (res, h')"
      by (auto simp: ransac_correspondence_loop.simps[of _ _ _ _ _ _ _ _ itr] Let_def
          split: sum.splits prod.splits)
    from sample_loop_subset[OF "1.prems"(2,3) s]
    have l1: "length rc1 = nat n" and sub: "set rc1 \<subseteq> set corres" by simp_all
    from "1.hyps"[OF True s refl refl refl e r "1.prems"(2) l1]
    obtain new where n: "h' = (h @ [(rc1, est source target rc1, this)]) @ new"
      "int (length new) = max 0 (min (max_iteration crit) (max_validation crit) - (itr + 1))"
      "\<forall>e \<in> set new. length (fst e) = nat n \<and> set (fst e) \<subseteq> set corres \<and>
        fst (snd e) = est source target (fst e) \<and>
        EvaluateRANSACBasedOnCorrespondence (Transform (fst (snd e)) source) target corres md
          (fst (snd e)) = Inr (snd (snd e))"
      "res = foldl best_of
               (if fitness this > fitness result \<or>
                   (fitness this = fitness result \<and> inlier_rmse this < inlier_rmse result)
                then this else result) (map (\<lambda>e. snd (snd e)) new)"
      by blast
    have b: "(if fitness this > fitness result \<or>
                   (fitness this = fitness result \<and> inlier_rmse this < inlier_rmse result)
                then this else result) = best_of result this"
      by (simp add: best_of_def replaces_def)
    show ?thesis
      apply (rule exI[of _ "(rc1, est source target rc1, this) # new"])
      using n True l1 sub e b by auto
  qed
qed

lemma ransac_loop_total:
  assumes "corres \<noteq> []" and "length rc = nat n"
    and "valid_correspondences source target corres"
  shows "\<exists>res h'. ransac_correspondence_loop source target corres md est n crit rand itr
             (d, rc, result) h = Inr (res, h')"
  using assms
proof (induction source target corres md est n crit rand itr "(d, rc, result)" h
    arbitrary: d rc result rule: ransac_correspondence_loop.induct)
  case (1 source target corres md est n crit rand itr d rc result h)
  show ?case
  proof (cases "itr < max_iteration crit \<and> itr < max_validation crit")
    case False
    have "ransac_correspondence_loop source target corres md est n crit rand itr
             (d, rc, result) h = Inr (result, h)"
      by (subst ransac_correspondence_loop.simps) (simp only: if_not_P[OF False])
    then show ?thesis by blast
  next
    case True
    from sample_loop_total[OF "1.prems"(1,2), of rand d] obtain rc1 where
      s: "for_loop 0 n (sample_correspondence rand corres) (rc, d) = Inr (rc1, d + nat n)"
      and l1: "length rc1 = nat n" by blast
    have "valid_correspondences (Transform (est source target rc1) source) target corres"
      using "1.prems"(3) by (simp add: valid_correspondences_def Transform_def)
    from scorer_valid[OF this] obtain this where
      e: "EvaluateRANSACBasedOnCorrespondence (Transform (est source target rc1) source)
                target corres md (est source target rc1) = Inr this" by blast
    from "1.hyps"[OF True s refl refl refl e "1.prems"(1) l1 "1.prems"(3)]
    show ?thesis
      using True s e
      by (simp add: ransac_correspondence_loop.simps[of _ _ _ _ _ _ _ _ itr])
  qed
qed

subsection \<open>ICP\<close>

lemma icp_loop_history:
  assumes "icp_loop est target kd md crit i (T, pcd, result) h = (r, h')"
  shows "\<exists>new. h' = h @ new \<and>
     int (length new) \<le> max 0 (ICPConvergenceCriteria.max_iteration crit - i) \<and>
     (\<forall>k. Suc k < length new \<longrightarrow> \<not> converged crit (new ! k)) \<and>
     (int (length new) < ICPConvergenceCriteria.max_iteration crit - i \<longrightarrow>
        new \<noteq> [] \<and> converged crit (last new)) \<and>
     map fst new = butlast (result # map snd new) \<and>
     r = last (result # map snd new) \<and>
     (\<forall>e \<in> set new. \<exists>pcd' T'. snd e =
        GetRegistrationResultAndCorrespondences pcd' target kd md T')"
  using assms
proof (induction est target kd md crit i "(T, pcd, result)" h arbitrary: T pcd result
    rule: icp_loop.induct)
  case (1 est target kd md crit i T pcd result h)
  show ?case
  proof (cases "i < ICPConvergenceCriteria.max_iteration crit")
    case False
    have "icp_loop est target kd md crit i (T, pcd, result) h = (result, h)"
      by (subst icp_loop.simps) (simp only: if_not_P[OF False])
    with "1.prems" have "r = result" "h' = h" by simp_all
    with False show ?thesis by simp
  next
    case True
    define update where "update = est pcd target (correspondence_set result)"
    define T1 where "T1 = mat_mul update T"
    define pcd1 where "pcd1 = Transform update pcd"
    define result1 where
      "result1 = GetRegistrationResultAndCorrespondences pcd1 target kd md T1"
    show ?thesis
    proof (cases "converged crit (result, result1)")
      case c: True
      have "icp_loop est target kd md crit i (T, pcd, result) h =
              (result1, h @ [(result, result1)])"
        using True c
        by (subst icp_loop.simps)
           (simp add: Let_def converged_def update_def T1_def pcd1_def result1_def)
      with "1.prems" have "r = result1" "h' = h @ [(result, result1)]" by auto
      then show ?thesis
        apply (intro exI[of _ "[(result, result1)]"])
        using True c by (auto simp: result1_def)
    next
      case c: False
      have nc: "\<not> (\<bar>fitness result - fitness result1\<bar> < relative_fitness crit \<and>
            \<bar>inlier_rmse result - inlier_rmse result1\<bar> < relative_rmse crit)"
        using c by (simp add: converged_def)
      have "icp_loop est target kd md crit i (T, pcd, result) h =
              icp_loop est target kd md crit (i + 1) (T1, pcd1, result1)
                (h @ [(result, result1)])"
        using True nc
        by (subst icp_loop.simps)
           (auto simp: Let_def update_def T1_def pcd1_def result1_def)
      with "1.prems" have
        r: "icp_loop est target kd md crit (i + 1) (T1, pcd1, result1)
                (h @ [(result, result1)]) = (r, h')" by simp
      from "1.hyps"[OF True update_def T1_def pcd1_def refl result1_def _ r] nc
      obtain new where n: "h' = (h @ [(result, result1)]) @ new"
        "int (length new) \<le> max 0 (ICPConvergenceCriteria.max_iteration crit - (i + 1))"
        "\<forall>k. Suc k < length new \<longrightarrow> \<not> converged crit (new ! k)"
        "int (length new) < ICPConvergenceCriteria.max_iteration crit - (i + 1) \<longrightarrow>
           new \<noteq> [] \<and> converged crit (last new)"
        "map fst new = butlast (result1 # map snd new)"
        "r = last (result1 # map snd new)"
        "\<forall>e \<in> set new. \<exists>pcd' T'. snd e =
           GetRegistrationResultAndCorrespondences pcd' target kd md T'"
        by blast
      have nth: "\<forall>k. Suc k < length ((result, result1) # new) \<longrightarrow>
                  \<not> converged crit (((result, result1) # new) ! k)"
      proof (intro allI impI)
        fix k assume k: "Suc k < length ((result, result1) # new)"
        show "\<not> converged crit (((result, result1) # new) ! k)"
        proof (cases k)
          case 0
          with c show ?thesis by simp
        next
          case (Suc j)
          with k n(3) show ?thesis by simp
        qed
      qed
      have ev: "\<exists>pcd' T'. result1 =
           GetRegistrationResultAndCorrespondences pcd' target kd md T'"
        unfolding result1_def by blast
      show ?thesis
        apply (intro exI[of _ "(result, result1) # new"] conjI)
        subgoal using n(1) by simp
        subgoal using n(2) True by simp
        subgoal using nth .
        subgoal using n(2,4) True by auto
        subgoal using n(5) by simp
        subgoal using n(6) by simp
        subgoal using n(7) ev by auto
        done
    qed
  qed
qed

lemma EvaluateRegistration_initial:
  "EvaluateRegistration SetGeometry source target md init =
     GetRegistrationResultAndCorrespondences
       (if isIdentity init = False then Transform init source else source)
       target (SetGeometry target) md init"
  by (simp add: EvaluateRegistration_def Let_def)

text \<open>
  C4. The ICP loop carries out at most \<open>max_iteration\<close> refinement steps. A step whose
  two deltas are both below their thresholds (\<open>converged\<close>, a conjunction) is the last
  one, and the loop stops before \<open>max_iteration\<close> steps only after such a step. Each
  step starts from the result of the step before, the first from the evaluation at
  \<open>init\<close>, and the result returned is that of the last step.
\<close>

theorem icp_termination_rule:
  assumes "RegistrationICP_history SetGeometry source target max_distance init estimation
             criteria = (r, h)"
  shows "int (length h) \<le> max 0 (ICPConvergenceCriteria.max_iteration criteria) \<and>
         (\<forall>k < length h. converged criteria (h ! k) \<longrightarrow> Suc k = length h) \<and>
         (0 < max_distance \<and> int (length h) < ICPConvergenceCriteria.max_iteration criteria
            \<longrightarrow> h \<noteq> [] \<and> converged criteria (last h)) \<and>
         map fst h =
           butlast (EvaluateRegistration SetGeometry source target max_distance init
                    # map snd h) \<and>
         r = last (EvaluateRegistration SetGeometry source target max_distance init
                   # map snd h)"
proof (cases "max_distance \<le> 0")
  case True
  with assms have "r = RegistrationResult_of init" "h = []"
    by (auto simp: RegistrationICP_history_def)
  moreover from True have
    "EvaluateRegistration SetGeometry source target max_distance init =
       RegistrationResult_of init"
    by (simp add: EvaluateRegistration_initial GetRegistrationResultAndCorrespondences_def)
  ultimately show ?thesis using True by simp
next
  case False
  let ?r0 = "EvaluateRegistration SetGeometry source target max_distance init"
  from False assms have
    "icp_loop estimation target (SetGeometry target) max_distance criteria 0
       (init, if isIdentity init = False then Transform init source else source, ?r0) []
     = (r, h)"
    by (simp add: RegistrationICP_history_def EvaluateRegistration_initial Let_def)
  from icp_loop_history[OF this] have
    a: "int (length h) \<le> max 0 (ICPConvergenceCriteria.max_iteration criteria)"
    and b: "\<forall>k. Suc k < length h \<longrightarrow> \<not> converged criteria (h ! k)"
    and c: "int (length h) < ICPConvergenceCriteria.max_iteration criteria \<longrightarrow>
              h \<noteq> [] \<and> converged criteria (last h)"
    and d: "map fst h = butlast (?r0 # map snd h)"
    and e: "r = last (?r0 # map snd h)"
    by auto
  have "Suc k = length h" if "k < length h" "converged criteria (h ! k)" for k
  proof (rule ccontr)
    assume "Suc k \<noteq> length h"
    with that(1) have "Suc k < length h" by simp
    with b that(2) show False by blast
  qed
  with a c d e show ?thesis by blast
qed


text \<open>
  A run of two steps in which the fitness delta is below its threshold and the RMSE
  delta is not: the loop does not stop early.
\<close>

lemma Identity4: "Identity 4 = [[1, 0, 0, 0], [0, 1, 0, 0], [0, 0, 1, 0], [0, 0, 0, 1]]"
  by (simp add: Identity_def upt_rec)

lemma isIdentity_Identity4: "isIdentity [[1, 0, 0, 0], [0, 1, 0, 0], [0, 0, 1, 0], [0, 0, 0, 1]]"
  by (simp add: isIdentity_def dummy_precision_def upt_rec)

lemma mat_mul_Identity4:
  "mat_mul [[1, 0, 0, 0], [0, 1, 0, 0], [0, 0, 1, 0], [0, 0, 0, 1]]
           [[1, 0, 0, 0], [0, 1, 0, 0], [0, 0, 1, 0], [0, 0, 0, 1]] =
   [[1, 0, 0, 0], [0, 1, 0, 0], [0, 0, 1, 0], [0, 0, 0, 1]]"
  by (simp add: mat_mul_def upt_rec)

lemma evaluator_origin:
  "GetRegistrationResultAndCorrespondences [(0, 0, 0)] [(0, 0, 0)]
     (SearchHybrid_spec [(0, 0, 0)]) 1 T =
   \<lparr>transformation = T, correspondence_set = [(0, 0)], fitness = 1, inlier_rmse = 0\<rparr>"
  by (simp add: GetRegistrationResultAndCorrespondences_def RegistrationResult_of_def
      SearchHybrid_spec_def squaredNorm_def sub3_def)

theorem icp_termination_rule_witness:
  "RegistrationICP_history SearchHybrid_spec [(0, 0, 0)] [(0, 0, 0)] 1 (Identity 4)
     (\<lambda>pcd target corres. Identity 4)
     \<lparr>relative_fitness = 1, relative_rmse = 0, max_iteration = 2\<rparr> =
     (\<lparr>transformation = Identity 4, correspondence_set = [(0, 0)], fitness = 1,
       inlier_rmse = 0\<rparr>,
      [(\<lparr>transformation = Identity 4, correspondence_set = [(0, 0)], fitness = 1,
         inlier_rmse = 0\<rparr>,
        \<lparr>transformation = Identity 4, correspondence_set = [(0, 0)], fitness = 1,
         inlier_rmse = 0\<rparr>),
       (\<lparr>transformation = Identity 4, correspondence_set = [(0, 0)], fitness = 1,
         inlier_rmse = 0\<rparr>,
        \<lparr>transformation = Identity 4, correspondence_set = [(0, 0)], fitness = 1,
         inlier_rmse = 0\<rparr>)]) \<and>
   \<not> converged \<lparr>relative_fitness = 1, relative_rmse = 0, max_iteration = 2\<rparr>
     (\<lparr>transformation = Identity 4, correspondence_set = [(0, 0)], fitness = 1,
       inlier_rmse = 0\<rparr>,
      \<lparr>transformation = Identity 4, correspondence_set = [(0, 0)], fitness = 1,
       inlier_rmse = 0\<rparr>) \<and>
   EvaluateRegistration SearchHybrid_spec [(0, 0, 0)] [(0, 0, 0)] 1 (Identity 4) =
     \<lparr>transformation = Identity 4, correspondence_set = [(0, 0)], fitness = 1,
      inlier_rmse = 0\<rparr>"
proof -
  have run: "RegistrationICP_history SearchHybrid_spec [(0, 0, 0)] [(0, 0, 0)] 1 (Identity 4)
     (\<lambda>pcd target corres. Identity 4)
     \<lparr>relative_fitness = 1, relative_rmse = 0, max_iteration = 2\<rparr> =
     (\<lparr>transformation = Identity 4, correspondence_set = [(0, 0)], fitness = 1,
       inlier_rmse = 0\<rparr>,
      [(\<lparr>transformation = Identity 4, correspondence_set = [(0, 0)], fitness = 1,
         inlier_rmse = 0\<rparr>,
        \<lparr>transformation = Identity 4, correspondence_set = [(0, 0)], fitness = 1,
         inlier_rmse = 0\<rparr>),
       (\<lparr>transformation = Identity 4, correspondence_set = [(0, 0)], fitness = 1,
         inlier_rmse = 0\<rparr>,
        \<lparr>transformation = Identity 4, correspondence_set = [(0, 0)], fitness = 1,
         inlier_rmse = 0\<rparr>)])"
    by (simp add: RegistrationICP_history_def icp_loop.simps Identity4 isIdentity_Identity4
        mat_mul_Identity4 evaluator_origin Transform_def mat_apply_def Let_def)
  from icp_termination_rule [OF run] show ?thesis
    using run by (simp add: converged_def)
qed

subsection \<open>The drivers of correspondence RANSAC\<close>

text \<open>
  C3. When \<open>ransac_n \<ge> 3\<close>, \<open>|corres| \<ge> ransac_n\<close> and the distance bound is positive,
  correspondence RANSAC (on correspondences whose indices are in range) returns a
  result after exactly \<open>min max_iteration max_validation\<close> iterations (none when that
  minimum is not positive). Every iteration samples \<open>ransac_n\<close> pairs of \<open>corres\<close>,
  fits a transformation to them, scores it over \<open>corres\<close>, and the result is the
  best-of-N fold over the scored candidates.
\<close>

theorem ransac_correspondence_iterations:
  assumes "3 \<le> ransac_n" and "ransac_n \<le> int (length corres)" and "0 < max_distance"
    and "valid_correspondences source target corres"
  shows "\<exists>res h.
     RegistrationRANSACBasedOnCorrespondence_history rand source target corres max_distance
       estimation ransac_n criteria = Inr (res, h) \<and>
     int (length h) = max 0 (min (max_iteration criteria) (max_validation criteria)) \<and>
     (\<forall>e \<in> set h.
        int (length (fst e)) = ransac_n \<and> set (fst e) \<subseteq> set corres \<and>
        fst (snd e) = estimation source target (fst e) \<and>
        EvaluateRANSACBasedOnCorrespondence (Transform (fst (snd e)) source) target corres
          max_distance (fst (snd e)) = Inr (snd (snd e))) \<and>
     res = foldl best_of RegistrationResult_default (map (\<lambda>e. snd (snd e)) h)"
proof -
  have ne: "corres \<noteq> []" using assms(1,2) by auto
  have len: "length (replicate (nat ransac_n) (0 :: int, 0 :: int)) = nat ransac_n" by simp
  have unfold: "RegistrationRANSACBasedOnCorrespondence_history rand source target corres
       max_distance estimation ransac_n criteria =
     ransac_correspondence_loop source target corres max_distance estimation ransac_n
       criteria rand 0 (0, replicate (nat ransac_n) (0, 0), RegistrationResult_default) []"
    using assms(1,2,3) by (simp add: RegistrationRANSACBasedOnCorrespondence_history_def)
  from ransac_loop_total[OF ne len assms(4), of max_distance estimation criteria rand 0 0
      RegistrationResult_default "[]"]
  obtain res h where run: "ransac_correspondence_loop source target corres max_distance
       estimation ransac_n criteria rand 0
       (0, replicate (nat ransac_n) (0, 0), RegistrationResult_default) [] = Inr (res, h)"
    by blast
  from ransac_loop_history[OF run ne len] have
    "int (length h) = max 0 (min (max_iteration criteria) (max_validation criteria))"
    "\<forall>e \<in> set h. length (fst e) = nat ransac_n \<and> set (fst e) \<subseteq> set corres \<and>
        fst (snd e) = estimation source target (fst e) \<and>
        EvaluateRANSACBasedOnCorrespondence (Transform (fst (snd e)) source) target corres
          max_distance (fst (snd e)) = Inr (snd (snd e))"
    "res = foldl best_of RegistrationResult_default (map (\<lambda>e. snd (snd e)) h)"
    by auto
  moreover have "int (nat ransac_n) = ransac_n" using assms(1) by simp
  ultimately show ?thesis using unfold run by (intro exI[of _ res] exI[of _ h]) auto
qed

theorem ransac_correspondence_iterations_witness:
  "(3 :: int) \<le> 3 \<and> (3 :: int) \<le> int (length [(0 :: int, 0 :: int), (1, 1), (2, 2)]) \<and>
   (0 :: real) < 1 \<and>
   valid_correspondences [(0, 0, 0), (1, 0, 0), (0, 1, 0)] [(0, 0, 0), (1, 0, 0), (0, 1, 0)]
     [(0, 0), (1, 1), (2, 2)] \<and>
   (\<exists>res h.
      RegistrationRANSACBasedOnCorrespondence_history (\<lambda>k. k)
        [(0, 0, 0), (1, 0, 0), (0, 1, 0)] [(0, 0, 0), (1, 0, 0), (0, 1, 0)]
        [(0, 0), (1, 1), (2, 2)] 1 (\<lambda>source target corres. Identity 4) 3
        \<lparr>max_iteration = 2, max_validation = 5\<rparr> = Inr (res, h) \<and>
      length h = 2)"
proof -
  have v: "valid_correspondences [(0, 0, 0), (1, 0, 0), (0, 1, 0)]
     [(0, 0, 0), (1, 0, 0), (0, 1, 0)] [(0, 0), (1, 1), (2, 2)]"
    by (simp add: valid_correspondences_def)
  from ransac_correspondence_iterations [of 3 "[(0, 0), (1, 1), (2, 2)]" 1
      "[(0, 0, 0), (1, 0, 0), (0, 1, 0)]" "[(0, 0, 0), (1, 0, 0), (0, 1, 0)]" "\<lambda>k. k"
      "\<lambda>source target corres. Identity 4" "\<lparr>max_iteration = 2, max_validation = 5\<rparr>"] v
  show ?thesis by auto
qed


subsection \<open>Feature RANSAC\<close>

lemma take_Suc_update:
  "k < length xs \<Longrightarrow> take (Suc k) (xs[k := v]) = take k xs @ [v]"
  by (simp add: take_Suc_conv_app_nth)

lemma sample_feature_match_step:
  assumes "sample_feature_match rand source sf kdf k t = Inr t'"
  shows "\<exists>s t1. s = int (rand (drawn t)) mod int (length source) \<and> source \<noteq> [] \<and>
           0 \<le> s \<and> s < int (length sf) \<and>
           t1 = t\<lparr>drawn := drawn t + 1\<rparr> \<and>
           (case kdf (sf ! nat s) 1 of
              [] \<Rightarrow> t' = t1\<lparr>printed := printed t @ [Found_a_feature_without_neighbors],
                            ransac_corres := (ransac_corres t)[nat k := (s, 0)]\<rparr>
            | (index, dist2) # rest \<Rightarrow>
                t' = t1\<lparr>ransac_corres := (ransac_corres t)[nat k := (s, index)]\<rparr>)"
  using assms
  by (auto simp: sample_feature_match_def Let_def at_index_def
      split: if_splits sum.splits list.splits)

lemma feature_sampling_invariant:
  assumes run: "for_loop 0 n (sample_feature_match rand source sf kdf) w = Inr w'"
    and len: "length (ransac_corres w) = nat n"
  shows "drawn w' = drawn w + nat n \<and> length (ransac_corres w') = nat n \<and>
     (\<forall>j < nat n.
        fst (ransac_corres w' ! j) = int (rand (drawn w + j)) mod int (length source) \<and>
        snd (ransac_corres w' ! j) =
          (case kdf (sf ! nat (fst (ransac_corres w' ! j))) 1 of
             [] \<Rightarrow> 0 | (index, dist2) # rest \<Rightarrow> index)) \<and>
     printed w' = printed w @
        replicate (length (filter (\<lambda>c. kdf (sf ! nat (fst c)) 1 = []) (ransac_corres w')))
          Found_a_feature_without_neighbors \<and>
     result_private w' = result_private w \<and> validated w' = validated w \<and>
     total_validation w' = total_validation w \<and>
     finished_validation w' = finished_validation w"
proof -
  let ?miss = "\<lambda>c :: int \<times> int. kdf (sf ! nat (fst c)) 1 = []"
  let ?I = "\<lambda>(k :: int) (t :: worker).
     drawn t = drawn w + nat k \<and> length (ransac_corres t) = nat n \<and>
     (\<forall>j < nat k.
        fst (ransac_corres t ! j) = int (rand (drawn w + j)) mod int (length source) \<and>
        snd (ransac_corres t ! j) =
          (case kdf (sf ! nat (fst (ransac_corres t ! j))) 1 of
             [] \<Rightarrow> 0 | (index, dist2) # rest \<Rightarrow> index)) \<and>
     printed t = printed w @
        replicate (length (filter ?miss (take (nat k) (ransac_corres t))))
          Found_a_feature_without_neighbors \<and>
     result_private t = result_private w \<and> validated t = validated w \<and>
     total_validation t = total_validation w \<and>
     finished_validation t = finished_validation w"
  have "?I (max 0 n) w'"
  proof (rule for_loop_invariant[where I = ?I, OF run])
    show "?I 0 w" using len by simp
  next
    fix k :: int and t t' :: worker
    assume k: "0 \<le> k" "k < n" and I: "?I k t"
      and b: "sample_feature_match rand source sf kdf k t = Inr t'"
    have nk: "nat (k + 1) = Suc (nat k)" using k by simp
    have kn: "nat k < length (ransac_corres t)" using k I by simp
    let ?s = "int (rand (drawn t)) mod int (length source)"
    from sample_feature_match_step[OF b] have
      c: "(case kdf (sf ! nat ?s) 1 of
              [] \<Rightarrow> t' = t\<lparr>drawn := drawn t + 1,
                            printed := printed t @ [Found_a_feature_without_neighbors],
                            ransac_corres := (ransac_corres t)[nat k := (?s, 0)]\<rparr>
            | (index, dist2) # rest \<Rightarrow>
                t' = t\<lparr>drawn := drawn t + 1,
                       ransac_corres := (ransac_corres t)[nat k := (?s, index)]\<rparr>)"
      by (auto split: list.splits)
    have sd: "?s = int (rand (drawn w + nat k)) mod int (length source)"
      using I by simp
    show "?I (k + 1) t'"
    proof (cases "kdf (sf ! nat ?s) 1")
      case Nil
      with c have t': "t' = t\<lparr>drawn := drawn t + 1,
                            printed := printed t @ [Found_a_feature_without_neighbors],
                            ransac_corres := (ransac_corres t)[nat k := (?s, 0)]\<rparr>" by simp
      show ?thesis
        unfolding t' nk using I kn Nil sd
        by (auto simp: take_Suc_update nth_list_update less_Suc_eq
            replicate_append_same)
    next
      case (Cons a rest)
      obtain index dist2 where a: "a = (index, dist2)" by (cases a)
      with c Cons have t': "t' = t\<lparr>drawn := drawn t + 1,
                       ransac_corres := (ransac_corres t)[nat k := (?s, index)]\<rparr>" by simp
      show ?thesis
        unfolding t' nk using I kn Cons a sd
        by (auto simp: take_Suc_update nth_list_update less_Suc_eq)
    qed
  qed
  moreover have "nat (max 0 n) = nat n" by simp
  ultimately show ?thesis by simp
qed

text \<open>
  C8. After the sampling loop of feature RANSAC, entry \<open>j\<close> of \<open>ransac_corres\<close> holds
  the \<open>j\<close>-th sampled source index; its target index is 0 when the nearest-neighbour
  query on the descriptor of that source index returned nothing, and the index of
  the first neighbour returned otherwise. One debug message is printed for every
  entry whose query returned nothing.
\<close>

theorem feature_knn_miss_assigns_zero:
  assumes "for_loop 0 ransac_n
             (sample_feature_match rand source source_feature kdtree_feature) w = Inr w'"
    and "length (ransac_corres w) = nat ransac_n" and "0 \<le> j" and "j < ransac_n"
  shows "fst (ransac_corres w' ! nat j) =
           int (rand (drawn w + nat j)) mod int (length source) \<and>
         (kdtree_feature (source_feature ! nat (fst (ransac_corres w' ! nat j))) 1 = [] \<longrightarrow>
            snd (ransac_corres w' ! nat j) = 0) \<and>
         (\<forall>index dist2 rest.
            kdtree_feature (source_feature ! nat (fst (ransac_corres w' ! nat j))) 1 =
              (index, dist2) # rest \<longrightarrow>
            snd (ransac_corres w' ! nat j) = index) \<and>
         printed w' = printed w @
           replicate
             (length (filter (\<lambda>c. kdtree_feature (source_feature ! nat (fst c)) 1 = [])
                        (ransac_corres w')))
             Found_a_feature_without_neighbors"
proof -
  have j: "nat j < nat ransac_n" using assms(3,4) by simp
  from feature_sampling_invariant[OF assms(1,2)] j have
    f: "fst (ransac_corres w' ! nat j) =
           int (rand (drawn w + nat j)) mod int (length source)"
    and s: "snd (ransac_corres w' ! nat j) =
          (case kdtree_feature (source_feature ! nat (fst (ransac_corres w' ! nat j))) 1 of
             [] \<Rightarrow> 0 | (index, dist2) # rest \<Rightarrow> index)"
    and p: "printed w' = printed w @
           replicate
             (length (filter (\<lambda>c. kdtree_feature (source_feature ! nat (fst c)) 1 = [])
                        (ransac_corres w')))
             Found_a_feature_without_neighbors"
    by blast+
  from s have "kdtree_feature (source_feature ! nat (fst (ransac_corres w' ! nat j))) 1 = [] \<longrightarrow>
            snd (ransac_corres w' ! nat j) = 0" by simp
  moreover from s have "\<forall>index dist2 rest.
            kdtree_feature (source_feature ! nat (fst (ransac_corres w' ! nat j))) 1 =
              (index, dist2) # rest \<longrightarrow>
            snd (ransac_corres w' ! nat j) = index" by simp
  ultimately show ?thesis using f p by blast
qed

theorem feature_knn_miss_assigns_zero_witness:
  "for_loop 0 2
     (sample_feature_match (\<lambda>k. k) [(0, 0, 0), (1, 0, 0)] [[0], [1]]
        (\<lambda>query knn. if query = [0] then [] else [(1, 0)]))
     \<lparr>drawn = 0, ransac_corres = [(7, 7), (7, 7)],
      result_private = RegistrationResult_default, total_validation = 0,
      finished_validation = False, printed = [], validated = []\<rparr> =
   Inr \<lparr>drawn = 2, ransac_corres = [(0, 0), (1, 1)],
        result_private = RegistrationResult_default, total_validation = 0,
        finished_validation = False, printed = [Found_a_feature_without_neighbors],
        validated = []\<rparr> \<and>
   length [(7 :: int, 7 :: int), (7, 7)] = nat 2 \<and> (0 :: int) \<le> 0 \<and> (0 :: int) < 2 \<and>
   snd ([(0 :: int, 0 :: int), (1, 1)] ! nat 0) = 0"
proof -
  have run: "for_loop 0 2
     (sample_feature_match (\<lambda>k. k) [(0, 0, 0), (1, 0, 0)] [[0], [1]]
        (\<lambda>query knn. if query = [0] then [] else [(1, 0)]))
     \<lparr>drawn = 0, ransac_corres = [(7, 7), (7, 7)],
      result_private = RegistrationResult_default, total_validation = 0,
      finished_validation = False, printed = [], validated = []\<rparr> =
   Inr \<lparr>drawn = 2, ransac_corres = [(0, 0), (1, 1)],
        result_private = RegistrationResult_default, total_validation = 0,
        finished_validation = False, printed = [Found_a_feature_without_neighbors],
        validated = []\<rparr>"
    by (simp add: for_loop.simps sample_feature_match_def at_index_def Let_def)
  from feature_knn_miss_assigns_zero [OF run, of 0] show ?thesis
    using run by simp
qed

lemma feature_iteration_invariant:
  assumes "feature_iteration rand uninit source target sf kd kdf md est n checkers crit itr w
             = Inr w'"
    and "length (ransac_corres w) = nat n"
    and "result_private w = foldl best_of RegistrationResult_default (validated w)"
    and "\<forall>v \<in> set (validated w). \<exists>pcd T.
           v = GetRegistrationResultAndCorrespondences pcd target kd md T"
  shows "length (ransac_corres w') = nat n \<and>
         result_private w' = foldl best_of RegistrationResult_default (validated w') \<and>
         (\<forall>v \<in> set (validated w'). \<exists>pcd T.
           v = GetRegistrationResultAndCorrespondences pcd target kd md T)"
proof (cases "finished_validation w")
  case True
  with assms show ?thesis by (simp add: feature_iteration_def)
next
  case False
  with assms(1) obtain w1 where
    s: "for_loop 0 n (sample_feature_match rand source sf kdf) w = Inr w1"
    by (auto simp: feature_iteration_def split: sum.splits)
  from feature_sampling_invariant[OF s assms(2)] have
    w1: "length (ransac_corres w1) = nat n" "result_private w1 = result_private w"
      "validated w1 = validated w" by simp_all
  let ?T = "est source target (ransac_corres w1)"
  let ?cand = "GetRegistrationResultAndCorrespondences (Transform ?T source) target kd md ?T"
  have b: "(if fitness ?cand > fitness (result_private w) \<or>
              (fitness ?cand = fitness (result_private w) \<and>
               inlier_rmse ?cand < inlier_rmse (result_private w))
           then ?cand else result_private w) = best_of (result_private w) ?cand"
    by (simp add: best_of_def replaces_def)
  from assms(1) False s have
    "w' = w1 \<or>
     (length (ransac_corres w') = nat n \<and> validated w' = validated w @ [?cand] \<and>
      result_private w' = best_of (result_private w) ?cand)"
    using w1 b
    by (auto simp: feature_iteration_def Let_def split: if_splits)
  then show ?thesis
  proof
    assume "w' = w1"
    with w1 assms(3,4) show ?thesis by simp
  next
    assume a: "length (ransac_corres w') = nat n \<and> validated w' = validated w @ [?cand] \<and>
      result_private w' = best_of (result_private w) ?cand"
    have "\<exists>pcd T. ?cand = GetRegistrationResultAndCorrespondences pcd target kd md T"
      by blast
    with a assms(3,4) show ?thesis by auto
  qed
qed

lemma feature_worker_invariant:
  assumes "feature_worker rand uninit SetGeometry SetFeature source target sf tf md est n
             checkers crit = Inr w"
  shows "result_private w = foldl best_of RegistrationResult_default (validated w) \<and>
         (\<forall>v \<in> set (validated w). \<exists>pcd T.
           v = GetRegistrationResultAndCorrespondences pcd target (SetGeometry target) md T)"
proof -
  let ?I = "\<lambda>(k :: int) (t :: worker).
     length (ransac_corres t) = nat n \<and>
     result_private t = foldl best_of RegistrationResult_default (validated t) \<and>
     (\<forall>v \<in> set (validated t). \<exists>pcd T.
        v = GetRegistrationResultAndCorrespondences pcd target (SetGeometry target) md T)"
  from assms have run: "for_loop 0 (max_iteration crit)
       (feature_iteration rand uninit source target sf (SetGeometry target) (SetFeature tf)
          md est n checkers crit)
       \<lparr>drawn = 0, ransac_corres = replicate (nat n) (0, 0),
        result_private = RegistrationResult_default, total_validation = 0,
        finished_validation = False, printed = [], validated = []\<rparr> = Inr w"
    by (simp add: feature_worker_def Let_def)
  have "?I (max 0 (max_iteration crit)) w"
  proof (rule for_loop_invariant[where I = ?I, OF run])
    show "?I 0 \<lparr>drawn = 0, ransac_corres = replicate (nat n) (0, 0),
        result_private = RegistrationResult_default, total_validation = 0,
        finished_validation = False, printed = [], validated = []\<rparr>" by simp
  next
    fix k :: int and t t' :: worker
    assume "?I k t" and
      "feature_iteration rand uninit source target sf (SetGeometry target) (SetFeature tf)
          md est n checkers crit k t = Inr t'"
    then show "?I (k + 1) t'"
      using feature_iteration_invariant[of rand uninit source target sf "SetGeometry target"
          "SetFeature tf" md est n checkers crit k t t'] by blast
  qed
  then show ?thesis by simp
qed

lemma reduce_worker_best_of: "reduce_worker result rp = best_of result rp"
  by (simp add: reduce_worker_def best_of_def replaces_def)

lemma join_workers_fold: "join_workers result locals = foldl best_of result locals"
  by (induction locals arbitrary: result) (simp_all add: reduce_worker_best_of)

lemma feature_driver_unfold:
  assumes "3 \<le> n" and "0 < md"
  shows "RegistrationRANSACBasedOnFeatureMatching rand uninit SetGeometry SetFeature source
           target sf tf md est n checkers crit =
         (case feature_worker rand uninit SetGeometry SetFeature source target sf tf md est n
                 checkers crit of
            Inl e \<Rightarrow> Inl e
          | Inr w \<Rightarrow>
              Inr (best_of RegistrationResult_default (result_private w),
                   printed w @
                   [RANSAC_Fitness_RMSE
                      (fitness (best_of RegistrationResult_default (result_private w)))
                      (inlier_rmse (best_of RegistrationResult_default (result_private w)))]))"
  using assms
  by (simp add: RegistrationRANSACBasedOnFeatureMatching_def Let_def reduce_worker_best_of
      split: sum.splits)

lemma ransac_correspondence_fold:
  assumes "RegistrationRANSACBasedOnCorrespondence_history rand source target corres md est n
             crit = Inr (res, h)"
  shows "res = foldl best_of RegistrationResult_default (map (\<lambda>e. snd (snd e)) h) \<and>
         (\<forall>e \<in> set h. \<exists>pcd T.
            EvaluateRANSACBasedOnCorrespondence pcd target corres md T = Inr (snd (snd e)))"
proof (cases "n < 3 \<or> int (length corres) < n \<or> md \<le> 0")
  case True
  with assms show ?thesis
    by (auto simp: RegistrationRANSACBasedOnCorrespondence_history_def)
next
  case False
  then have ne: "corres \<noteq> []" by auto
  have len: "length (replicate (nat n) (0 :: int, 0 :: int)) = nat n" by simp
  from False assms have run: "ransac_correspondence_loop source target corres md est n
       crit rand 0 (0, replicate (nat n) (0, 0), RegistrationResult_default) [] = Inr (res, h)"
    by (simp add: RegistrationRANSACBasedOnCorrespondence_history_def)
  from ransac_loop_history[OF run ne len] show ?thesis by auto
qed

text \<open>
  C5. In both RANSAC drivers the incumbent after each comparison is \<open>best_of\<close> of the
  incumbent and the candidate: the candidate replaces it exactly when \<open>replaces\<close>
  holds (strictly greater fitness, or equal fitness and strictly smaller RMSE). So
  the result of correspondence RANSAC and the worker's \<open>result_private\<close> are the
  fold of \<open>best_of\<close> over the candidates. The reduction of the worker-local bests
  uses the same rule for every incumbent and every local best: one pass of a worker
  through the final block is \<open>best_of\<close>, the shared result after any team of workers
  is the fold of \<open>best_of\<close> over their local bests, and the result of feature RANSAC
  is that reduction, started at the default result, of the local best of its worker.
\<close>

theorem best_of_n_rule:
  "(RegistrationRANSACBasedOnCorrespondence_history rand source target corres max_distance
      estimation ransac_n criteria = Inr (res, h) \<longrightarrow>
    res = foldl best_of RegistrationResult_default (map (\<lambda>e. snd (snd e)) h)) \<and>
   (feature_worker rand uninitialized SetGeometry SetFeature source target source_feature
      target_feature max_distance estimation ransac_n checkers criteria = Inr w \<longrightarrow>
    result_private w = foldl best_of RegistrationResult_default (validated w)) \<and>
   (feature_worker rand uninitialized SetGeometry SetFeature source target source_feature
      target_feature max_distance estimation ransac_n checkers criteria = Inr w \<and>
    3 \<le> ransac_n \<and> 0 < max_distance \<longrightarrow>
    map_sum id fst
      (RegistrationRANSACBasedOnFeatureMatching rand uninitialized SetGeometry SetFeature
         source target source_feature target_feature max_distance estimation ransac_n
         checkers criteria) =
    Inr (best_of RegistrationResult_default (result_private w))) \<and>
   reduce_worker incumbent candidate = best_of incumbent candidate \<and>
   (reduce_worker incumbent candidate = candidate) =
     (replaces candidate incumbent \<or> candidate = incumbent) \<and>
   join_workers incumbent locals = foldl best_of incumbent locals \<and>
   (feature_worker rand uninitialized SetGeometry SetFeature source target source_feature
      target_feature max_distance estimation ransac_n checkers criteria = Inr w \<and>
    3 \<le> ransac_n \<and> 0 < max_distance \<longrightarrow>
    map_sum id fst
      (RegistrationRANSACBasedOnFeatureMatching rand uninitialized SetGeometry SetFeature
         source target source_feature target_feature max_distance estimation ransac_n
         checkers criteria) =
    Inr (join_workers RegistrationResult_default [result_private w]))"
proof (intro conjI impI)
  assume "RegistrationRANSACBasedOnCorrespondence_history rand source target corres
      max_distance estimation ransac_n criteria = Inr (res, h)"
  from ransac_correspondence_fold[OF this]
  show "res = foldl best_of RegistrationResult_default (map (\<lambda>e. snd (snd e)) h)" by blast
next
  assume "feature_worker rand uninitialized SetGeometry SetFeature source target
      source_feature target_feature max_distance estimation ransac_n checkers criteria = Inr w"
  from feature_worker_invariant[OF this]
  show "result_private w = foldl best_of RegistrationResult_default (validated w)" by blast
next
  assume a: "feature_worker rand uninitialized SetGeometry SetFeature source target
      source_feature target_feature max_distance estimation ransac_n checkers criteria = Inr w \<and>
    3 \<le> ransac_n \<and> 0 < max_distance"
  then show "map_sum id fst
      (RegistrationRANSACBasedOnFeatureMatching rand uninitialized SetGeometry SetFeature
         source target source_feature target_feature max_distance estimation ransac_n
         checkers criteria) =
    Inr (best_of RegistrationResult_default (result_private w))"
    by (simp add: feature_driver_unfold)
next
  show "reduce_worker incumbent candidate = best_of incumbent candidate"
    by (rule reduce_worker_best_of)
next
  show "(reduce_worker incumbent candidate = candidate) =
     (replaces candidate incumbent \<or> candidate = incumbent)"
    by (auto simp: reduce_worker_best_of best_of_def)
next
  show "join_workers incumbent locals = foldl best_of incumbent locals"
    by (rule join_workers_fold)
next
  assume a: "feature_worker rand uninitialized SetGeometry SetFeature source target
      source_feature target_feature max_distance estimation ransac_n checkers criteria = Inr w \<and>
    3 \<le> ransac_n \<and> 0 < max_distance"
  then show "map_sum id fst
      (RegistrationRANSACBasedOnFeatureMatching rand uninitialized SetGeometry SetFeature
         source target source_feature target_feature max_distance estimation ransac_n
         checkers criteria) =
    Inr (join_workers RegistrationResult_default [result_private w])"
    by (simp add: feature_driver_unfold join_workers_fold)
qed

lemma Transform_Identity4_origin:
  "Transform [[1, 0, 0, 0], [0, 1, 0, 0], [0, 0, 1, 0], [0, 0, 0, 1]] [(0, 0, 0)] = [(0, 0, 0)]"
  by (simp add: Transform_def mat_apply_def)

lemma replicate_3: "replicate 3 x = [x, x, x]"
  by (simp add: numeral_3_eq_3)

lemma update_2: "(x # y # z # xs)[2 := v] = x # y # v # xs"
  by (simp add: numeral_2_eq_2)

lemma correspondence_run:
  "RegistrationRANSACBasedOnCorrespondence_history (\<lambda>k. k) [(0, 0, 0)] [(0, 0, 0)]
     [(0, 0), (0, 0), (0, 0)] 1 (\<lambda>source target corres. Identity 4) 3
     \<lparr>max_iteration = 1, max_validation = 1\<rparr> =
   Inr (\<lparr>transformation = Identity 4, correspondence_set = [], fitness = 1, inlier_rmse = 0\<rparr>,
        [([(0, 0), (0, 0), (0, 0)], Identity 4,
          \<lparr>transformation = Identity 4, correspondence_set = [], fitness = 1,
           inlier_rmse = 0\<rparr>)])"
  by (simp add: RegistrationRANSACBasedOnCorrespondence_history_def
      ransac_correspondence_loop.simps for_loop.simps sample_correspondence_def at_index_def
      EvaluateRANSACBasedOnCorrespondence_def RegistrationResult_default_def
      RegistrationResult_of_def Identity4 Transform_Identity4_origin squaredNorm_def sub3_def
      Let_def replicate_3 update_2)

lemma feature_run:
  "feature_worker (\<lambda>k. k) (Identity 4) SearchHybrid_spec (\<lambda>feature query knn. [(0, 0)])
     [(0, 0, 0)] [(0, 0, 0)] [[0]] [[0]] 1 (\<lambda>source target corres. Identity 4) 3 []
     \<lparr>max_iteration = 1, max_validation = 1\<rparr> =
   Inr \<lparr>drawn = 3, ransac_corres = [(0, 0), (0, 0), (0, 0)],
        result_private = \<lparr>transformation = Identity 4, correspondence_set = [(0, 0)],
                           fitness = 1, inlier_rmse = 0\<rparr>,
        total_validation = 1, finished_validation = True, printed = [],
        validated = [\<lparr>transformation = Identity 4, correspondence_set = [(0, 0)],
                       fitness = 1, inlier_rmse = 0\<rparr>]\<rparr>"
  by (simp add: feature_worker_def feature_iteration_def for_loop.simps
      sample_feature_match_def at_index_def RegistrationResult_default_def
      RegistrationResult_of_def Identity4 Transform_Identity4_origin evaluator_origin Let_def
      replicate_3 update_2)

theorem best_of_n_rule_witness:
  "RegistrationRANSACBasedOnCorrespondence_history (\<lambda>k. k) [(0, 0, 0)] [(0, 0, 0)]
     [(0, 0), (0, 0), (0, 0)] 1 (\<lambda>source target corres. Identity 4) 3
     \<lparr>max_iteration = 1, max_validation = 1\<rparr> =
   Inr (\<lparr>transformation = Identity 4, correspondence_set = [], fitness = 1, inlier_rmse = 0\<rparr>,
        [([(0, 0), (0, 0), (0, 0)], Identity 4,
          \<lparr>transformation = Identity 4, correspondence_set = [], fitness = 1,
           inlier_rmse = 0\<rparr>)]) \<and>
   feature_worker (\<lambda>k. k) (Identity 4) SearchHybrid_spec (\<lambda>feature query knn. [(0, 0)])
     [(0, 0, 0)] [(0, 0, 0)] [[0]] [[0]] 1 (\<lambda>source target corres. Identity 4) 3 []
     \<lparr>max_iteration = 1, max_validation = 1\<rparr> =
   Inr \<lparr>drawn = 3, ransac_corres = [(0, 0), (0, 0), (0, 0)],
        result_private = \<lparr>transformation = Identity 4, correspondence_set = [(0, 0)],
                           fitness = 1, inlier_rmse = 0\<rparr>,
        total_validation = 1, finished_validation = True, printed = [],
        validated = [\<lparr>transformation = Identity 4, correspondence_set = [(0, 0)],
                       fitness = 1, inlier_rmse = 0\<rparr>]\<rparr> \<and>
   (3 :: int) \<le> 3 \<and> (0 :: real) < 1 \<and>
   map_sum id fst
     (RegistrationRANSACBasedOnFeatureMatching (\<lambda>k. k) (Identity 4) SearchHybrid_spec
        (\<lambda>feature query knn. [(0, 0)]) [(0, 0, 0)] [(0, 0, 0)] [[0]] [[0]] 1
        (\<lambda>source target corres. Identity 4) 3 []
        \<lparr>max_iteration = 1, max_validation = 1\<rparr>) =
   Inr \<lparr>transformation = Identity 4, correspondence_set = [(0, 0)], fitness = 1,
        inlier_rmse = 0\<rparr> \<and>
   reduce_worker
     \<lparr>transformation = Identity 4, correspondence_set = [(0, 0)], fitness = 1 / 2,
      inlier_rmse = 1\<rparr>
     \<lparr>transformation = Identity 4, correspondence_set = [(1, 1)], fitness = 1 / 2,
      inlier_rmse = 2\<rparr> =
     \<lparr>transformation = Identity 4, correspondence_set = [(0, 0)], fitness = 1 / 2,
      inlier_rmse = 1\<rparr> \<and>
   join_workers
     \<lparr>transformation = Identity 4, correspondence_set = [(0, 0)], fitness = 1 / 2,
      inlier_rmse = 1\<rparr>
     [\<lparr>transformation = Identity 4, correspondence_set = [(2, 2)], fitness = 1 / 2,
       inlier_rmse = 0\<rparr>,
      \<lparr>transformation = Identity 4, correspondence_set = [(1, 1)], fitness = 1 / 2,
       inlier_rmse = 2\<rparr>,
      \<lparr>transformation = Identity 4, correspondence_set = [(3, 3)], fitness = 1 / 4,
       inlier_rmse = 0\<rparr>] =
     \<lparr>transformation = Identity 4, correspondence_set = [(2, 2)], fitness = 1 / 2,
      inlier_rmse = 0\<rparr>"
  using best_of_n_rule [of "\<lambda>k. k" "[(0, 0, 0)]" "[(0, 0, 0)]" "[(0, 0), (0, 0), (0, 0)]" 1
      "\<lambda>source target corres. Identity 4" 3 "\<lparr>max_iteration = 1, max_validation = 1\<rparr>"
      "\<lparr>transformation = Identity 4, correspondence_set = [], fitness = 1, inlier_rmse = 0\<rparr>"
      "[([(0, 0), (0, 0), (0, 0)], Identity 4,
          \<lparr>transformation = Identity 4, correspondence_set = [], fitness = 1,
           inlier_rmse = 0\<rparr>)]"
      "Identity 4" SearchHybrid_spec "\<lambda>feature query knn. [(0, 0)]" "[[0]]" "[[0]]" "[]"
      "\<lparr>drawn = 3, ransac_corres = [(0, 0), (0, 0), (0, 0)],
        result_private = \<lparr>transformation = Identity 4, correspondence_set = [(0, 0)],
                           fitness = 1, inlier_rmse = 0\<rparr>,
        total_validation = 1, finished_validation = True, printed = [],
        validated = [\<lparr>transformation = Identity 4, correspondence_set = [(0, 0)],
                       fitness = 1, inlier_rmse = 0\<rparr>]\<rparr>"
      "\<lparr>transformation = Identity 4, correspondence_set = [(0, 0)], fitness = 1 / 2,
        inlier_rmse = 1\<rparr>"
      "\<lparr>transformation = Identity 4, correspondence_set = [(1, 1)], fitness = 1 / 2,
        inlier_rmse = 2\<rparr>"
      "[\<lparr>transformation = Identity 4, correspondence_set = [(2, 2)], fitness = 1 / 2,
         inlier_rmse = 0\<rparr>,
        \<lparr>transformation = Identity 4, correspondence_set = [(1, 1)], fitness = 1 / 2,
         inlier_rmse = 2\<rparr>,
        \<lparr>transformation = Identity 4, correspondence_set = [(3, 3)], fitness = 1 / 4,
         inlier_rmse = 0\<rparr>]"]
    correspondence_run feature_run
  by (simp add: best_of_def replaces_def RegistrationResult_default_def RegistrationResult_of_def)

subsection \<open>Invalid arguments\<close>

text \<open>
  C6. On invalid arguments the drivers return normally: correspondence RANSAC and
  feature RANSAC return the default result (identity transformation, empty
  correspondence set, fitness 0, RMSE 0), ICP returns that result with \<open>init\<close> as its
  transformation.
\<close>

theorem invalid_arguments_default_result:
  "(ransac_n < 3 \<or> int (length corres) < ransac_n \<or> max_distance \<le> 0 \<longrightarrow>
      RegistrationRANSACBasedOnCorrespondence rand source target corres max_distance
        estimation ransac_n criteria =
      Inr \<lparr>transformation = Identity 4, correspondence_set = [], fitness = 0,
           inlier_rmse = 0\<rparr>) \<and>
   (ransac_n < 3 \<or> max_distance \<le> 0 \<longrightarrow>
      RegistrationRANSACBasedOnFeatureMatching rand uninitialized SetGeometry SetFeature
        source target source_feature target_feature max_distance estimation ransac_n
        checkers criteria =
      Inr (\<lparr>transformation = Identity 4, correspondence_set = [], fitness = 0,
            inlier_rmse = 0\<rparr>, [])) \<and>
   (max_distance \<le> 0 \<longrightarrow>
      RegistrationICP SetGeometry source target max_distance init estimation icp_criteria =
      \<lparr>transformation = init, correspondence_set = [], fitness = 0, inlier_rmse = 0\<rparr>)"
  by (simp add: RegistrationRANSACBasedOnCorrespondence_def
      RegistrationRANSACBasedOnCorrespondence_history_def
      RegistrationRANSACBasedOnFeatureMatching_def RegistrationICP_def
      RegistrationICP_history_def RegistrationResult_default_def RegistrationResult_of_def)

theorem invalid_arguments_default_result_witness:
  "((2 :: int) < 3 \<or> int (length ([] :: CorrespondenceSet)) < 2 \<or> (0 :: real) \<le> 0) \<and>
   RegistrationRANSACBasedOnCorrespondence (\<lambda>k. k) [] [] [] 0
     (\<lambda>source target corres. Identity 4) 2 \<lparr>max_iteration = 1, max_validation = 1\<rparr> =
     Inr \<lparr>transformation = Identity 4, correspondence_set = [], fitness = 0,
          inlier_rmse = 0\<rparr> \<and>
   RegistrationRANSACBasedOnFeatureMatching (\<lambda>k. k) (Identity 4) SearchHybrid_spec
     (\<lambda>feature query knn. []) [] [] [] [] 0 (\<lambda>source target corres. Identity 4) 2 []
     \<lparr>max_iteration = 1, max_validation = 1\<rparr> =
     Inr (\<lparr>transformation = Identity 4, correspondence_set = [], fitness = 0,
           inlier_rmse = 0\<rparr>, []) \<and>
   RegistrationICP SearchHybrid_spec [] [] 0 [[2, 0, 0, 0], [0, 1, 0, 0], [0, 0, 1, 0], [0, 0, 0, 1]]
     (\<lambda>source target corres. Identity 4)
     \<lparr>relative_fitness = 0, relative_rmse = 0, max_iteration = 1\<rparr> =
     \<lparr>transformation = [[2, 0, 0, 0], [0, 1, 0, 0], [0, 0, 1, 0], [0, 0, 0, 1]],
      correspondence_set = [], fitness = 0, inlier_rmse = 0\<rparr>"
  using invalid_arguments_default_result [of 2 "[]" 0 "\<lambda>k. k" "[]" "[]"
      "\<lambda>source target corres. Identity 4" "\<lparr>max_iteration = 1, max_validation = 1\<rparr>"
      "Identity 4" SearchHybrid_spec "\<lambda>feature query knn. []" "[]" "[]" "[]"
      "[[2, 0, 0, 0], [0, 1, 0, 0], [0, 0, 1, 0], [0, 0, 0, 1]]"
      "\<lparr>relative_fitness = 0, relative_rmse = 0, max_iteration = 1\<rparr>"]
  by simp

subsection \<open>The invariant of registration results\<close>

lemma scorer_loop_bounds:
  "scorer_loop source target m corres (good, error2) = Inr (good', error2') \<Longrightarrow>
   good \<le> good' \<and> good' \<le> good + int (length corres)"
proof (induction corres arbitrary: good error2)
  case Nil
  then show ?case by simp
next
  case (Cons c rest)
  show ?case
    using Cons.prems
    by (auto simp: Let_def split: sum.splits if_splits dest!: Cons.IH)
qed

lemma scorer_invariant_holds:
  assumes "EvaluateRANSACBasedOnCorrespondence source target corres md T = Inr r"
  shows "scorer_invariant r"
proof -
  from assms obtain good error2 where
    l: "scorer_loop source target (md * md) corres (0, 0) = Inr (good, error2)"
    and r: "r = (if good = 0
                 then (RegistrationResult_of T)\<lparr>fitness := 0, inlier_rmse := 0\<rparr>
                 else (RegistrationResult_of T)
                        \<lparr>fitness := real_of_int good / real (length corres),
                         inlier_rmse := sqrt (error2 / real_of_int good)\<rparr>)"
    by (auto simp: EvaluateRANSACBasedOnCorrespondence_def Let_def split: sum.splits if_splits)
  from scorer_loop_bounds[OF l] have b: "0 \<le> good" "good \<le> int (length corres)" by simp_all
  show ?thesis
  proof (cases "good = 0")
    case True
    with r show ?thesis by (simp add: scorer_invariant_def RegistrationResult_of_def)
  next
    case False
    with b have "0 < good" "0 < length corres" by auto
    then have "real_of_int good / real (length corres) \<noteq> 0" by simp
    with False r show ?thesis by (simp add: scorer_invariant_def)
  qed
qed

lemma default_invariants:
  "evaluator_invariant (RegistrationResult_of T)" "scorer_invariant (RegistrationResult_of T)"
  by (simp_all add: evaluator_invariant_def scorer_invariant_def RegistrationResult_of_def)

text \<open>
  C2. The claimed chain of equivalences (empty correspondence set iff fitness 0 iff
  RMSE 0) does not hold. What holds: for the Evaluator, \<open>EvaluateRegistration\<close>,
  \<open>RegistrationICP\<close> and feature RANSAC the correspondence set is empty iff the
  fitness is 0, and fitness 0 implies RMSE 0; for the correspondence scorer and
  correspondence RANSAC fitness 0 implies RMSE 0 and an empty correspondence set.
\<close>

theorem result_invariant_as_implemented:
  "evaluator_invariant
     (GetRegistrationResultAndCorrespondences source target kdtree max_distance T) \<and>
   evaluator_invariant (EvaluateRegistration SetGeometry source target max_distance T) \<and>
   evaluator_invariant
     (RegistrationICP SetGeometry source target max_distance T estimation icp_criteria) \<and>
   (RegistrationRANSACBasedOnFeatureMatching rand uninitialized SetGeometry SetFeature
      source target source_feature target_feature max_distance estimation ransac_n
      checkers criteria = Inr (r, printed_messages) \<longrightarrow> evaluator_invariant r) \<and>
   (EvaluateRANSACBasedOnCorrespondence source target corres max_distance T = Inr r1 \<longrightarrow>
      scorer_invariant r1) \<and>
   (RegistrationRANSACBasedOnCorrespondence rand source target corres max_distance
      estimation ransac_n criteria = Inr r2 \<longrightarrow> scorer_invariant r2)"
proof (intro conjI impI)
  show "evaluator_invariant
     (GetRegistrationResultAndCorrespondences source target kdtree max_distance T)"
    by (rule evaluator_invariant_holds)
next
  show "evaluator_invariant (EvaluateRegistration SetGeometry source target max_distance T)"
    by (simp add: EvaluateRegistration_initial evaluator_invariant_holds)
next
  obtain r h where rh: "RegistrationICP_history SetGeometry source target max_distance T
      estimation icp_criteria = (r, h)"
    by (cases "RegistrationICP_history SetGeometry source target max_distance T
      estimation icp_criteria")
  show "evaluator_invariant
     (RegistrationICP SetGeometry source target max_distance T estimation icp_criteria)"
  proof (cases "max_distance \<le> 0")
    case True
    then show ?thesis
      by (simp add: RegistrationICP_def RegistrationICP_history_def default_invariants)
  next
    case False
    let ?r0 = "EvaluateRegistration SetGeometry source target max_distance T"
    from False rh have
      "icp_loop estimation target (SetGeometry target) max_distance icp_criteria 0
         (T, if isIdentity T = False then Transform T source else source, ?r0) [] = (r, h)"
      by (simp add: RegistrationICP_history_def EvaluateRegistration_initial Let_def)
    from icp_loop_history[OF this] have
      e: "r = last (?r0 # map snd h)"
      and ev: "\<forall>e \<in> set h. \<exists>pcd' T'. snd e =
        GetRegistrationResultAndCorrespondences pcd' target (SetGeometry target)
          max_distance T'" by auto
    have "evaluator_invariant x" if "x \<in> set (?r0 # map snd h)" for x
      using that ev
      by (auto simp: EvaluateRegistration_initial evaluator_invariant_holds)
    moreover have "last (?r0 # map snd h) \<in> set (?r0 # map snd h)"
      by (rule last_in_set) simp
    ultimately have "evaluator_invariant r" using e by blast
    with rh show ?thesis by (simp add: RegistrationICP_def)
  qed
next
  assume a: "RegistrationRANSACBasedOnFeatureMatching rand uninitialized SetGeometry
      SetFeature source target source_feature target_feature max_distance estimation
      ransac_n checkers criteria = Inr (r, printed_messages)"
  show "evaluator_invariant r"
  proof (cases "ransac_n < 3 \<or> max_distance \<le> 0")
    case True
    with a have "r = RegistrationResult_default"
      by (auto simp: RegistrationRANSACBasedOnFeatureMatching_def)
    then show ?thesis by (simp add: RegistrationResult_default_def default_invariants)
  next
    case False
    then have g: "3 \<le> ransac_n" "0 < max_distance" by auto
    from a obtain w where
      w: "feature_worker rand uninitialized SetGeometry SetFeature source target
            source_feature target_feature max_distance estimation ransac_n checkers criteria
          = Inr w"
      and r: "r = best_of RegistrationResult_default (result_private w)"
      by (auto simp: feature_driver_unfold[OF g] split: sum.splits)
    from feature_worker_invariant[OF w] have
      rp: "result_private w = foldl best_of RegistrationResult_default (validated w)"
      and ev: "\<forall>v \<in> set (validated w). \<exists>pcd T.
           v = GetRegistrationResultAndCorrespondences pcd target (SetGeometry target)
                 max_distance T" by blast+
    have d: "evaluator_invariant RegistrationResult_default"
      by (simp add: RegistrationResult_default_def default_invariants)
    have "\<forall>v \<in> set (validated w). evaluator_invariant v"
      using ev by (auto simp: evaluator_invariant_holds)
    with d have "evaluator_invariant (result_private w)"
      unfolding rp by (rule foldl_best_of_cases)
    with d r show ?thesis by (simp add: best_of_def)
  qed
next
  assume "EvaluateRANSACBasedOnCorrespondence source target corres max_distance T = Inr r1"
  then show "scorer_invariant r1" by (rule scorer_invariant_holds)
next
  assume "RegistrationRANSACBasedOnCorrespondence rand source target corres max_distance
      estimation ransac_n criteria = Inr r2"
  then obtain h where
    "RegistrationRANSACBasedOnCorrespondence_history rand source target corres max_distance
       estimation ransac_n criteria = Inr (r2, h)"
    by (cases "RegistrationRANSACBasedOnCorrespondence_history rand source target corres
       max_distance estimation ransac_n criteria")
       (auto simp: RegistrationRANSACBasedOnCorrespondence_def)
  from ransac_correspondence_fold[OF this] have
    f: "r2 = foldl best_of RegistrationResult_default (map (\<lambda>e. snd (snd e)) h)"
    and ev: "\<forall>e \<in> set h. \<exists>pcd T.
            EvaluateRANSACBasedOnCorrespondence pcd target corres max_distance T =
              Inr (snd (snd e))" by blast+
  have d: "scorer_invariant RegistrationResult_default"
    by (simp add: RegistrationResult_default_def default_invariants)
  have "\<forall>c \<in> set (map (\<lambda>e. snd (snd e)) h). scorer_invariant c"
    using ev by (auto dest: scorer_invariant_holds)
  with d show "scorer_invariant r2" unfolding f by (rule foldl_best_of_cases)
qed

lemma feature_driver_run:
  "RegistrationRANSACBasedOnFeatureMatching (\<lambda>k. k) (Identity 4) SearchHybrid_spec
     (\<lambda>feature query knn. [(0, 0)]) [(0, 0, 0)] [(0, 0, 0)] [[0]] [[0]] 1
     (\<lambda>source target corres. Identity 4) 3 []
     \<lparr>max_iteration = 1, max_validation = 1\<rparr> =
   Inr (\<lparr>transformation = Identity 4, correspondence_set = [(0, 0)], fitness = 1,
         inlier_rmse = 0\<rparr>, [RANSAC_Fitness_RMSE 1 0])"
  by (simp add: feature_driver_unfold feature_run best_of_def replaces_def
      RegistrationResult_default_def RegistrationResult_of_def)

lemma scorer_run:
  "EvaluateRANSACBasedOnCorrespondence [(0, 0, 0)] [(0, 0, 0)] [(0, 0)] 1 (Identity 4) =
     Inr \<lparr>transformation = Identity 4, correspondence_set = [], fitness = 1,
          inlier_rmse = 0\<rparr>"
  by (simp add: EvaluateRANSACBasedOnCorrespondence_def RegistrationResult_of_def
      at_index_def squaredNorm_def sub3_def)


lemma scorer_run3:
  "EvaluateRANSACBasedOnCorrespondence [(0, 0, 0)] [(0, 0, 0)] [(0, 0), (0, 0), (0, 0)] 1
     (Identity 4) =
     Inr \<lparr>transformation = Identity 4, correspondence_set = [], fitness = 1,
          inlier_rmse = 0\<rparr>"
  by (simp add: EvaluateRANSACBasedOnCorrespondence_def RegistrationResult_of_def
      at_index_def squaredNorm_def sub3_def)

theorem result_invariant_as_implemented_witness:
  "RegistrationRANSACBasedOnFeatureMatching (\<lambda>k. k) (Identity 4) SearchHybrid_spec
     (\<lambda>feature query knn. [(0, 0)]) [(0, 0, 0)] [(0, 0, 0)] [[0]] [[0]] 1
     (\<lambda>source target corres. Identity 4) 3 []
     \<lparr>max_iteration = 1, max_validation = 1\<rparr> =
   Inr (\<lparr>transformation = Identity 4, correspondence_set = [(0, 0)], fitness = 1,
         inlier_rmse = 0\<rparr>, [RANSAC_Fitness_RMSE 1 0]) \<and>
   evaluator_invariant \<lparr>transformation = Identity 4, correspondence_set = [(0, 0)],
                         fitness = 1, inlier_rmse = 0\<rparr> \<and>
   EvaluateRANSACBasedOnCorrespondence [(0, 0, 0)] [(0, 0, 0)] [(0, 0), (0, 0), (0, 0)] 1
     (Identity 4) =
     Inr \<lparr>transformation = Identity 4, correspondence_set = [], fitness = 1,
          inlier_rmse = 0\<rparr> \<and>
   RegistrationRANSACBasedOnCorrespondence (\<lambda>k. k) [(0, 0, 0)] [(0, 0, 0)]
     [(0, 0), (0, 0), (0, 0)] 1 (\<lambda>source target corres. Identity 4) 3
     \<lparr>max_iteration = 1, max_validation = 1\<rparr> =
     Inr \<lparr>transformation = Identity 4, correspondence_set = [], fitness = 1,
          inlier_rmse = 0\<rparr> \<and>
   scorer_invariant \<lparr>transformation = Identity 4, correspondence_set = [], fitness = 1,
                      inlier_rmse = 0\<rparr>"
  using result_invariant_as_implemented [of "[(0, 0, 0)]" "[(0, 0, 0)]"
      "SearchHybrid_spec [(0, 0, 0)]" 1 "Identity 4" SearchHybrid_spec
      "\<lambda>source target corres. Identity 4"
      "\<lparr>relative_fitness = 0, relative_rmse = 0, max_iteration = 1\<rparr>"
      "\<lambda>k. k" "Identity 4" "\<lambda>feature query knn. [(0, 0)]" "[[0]]" "[[0]]" 3 "[]"
      "\<lparr>max_iteration = 1, max_validation = 1\<rparr>"
      "\<lparr>transformation = Identity 4, correspondence_set = [(0, 0)], fitness = 1,
        inlier_rmse = 0\<rparr>" "[RANSAC_Fitness_RMSE 1 0]" "[(0, 0), (0, 0), (0, 0)]"
      "\<lparr>transformation = Identity 4, correspondence_set = [], fitness = 1,
        inlier_rmse = 0\<rparr>"
      "\<lparr>transformation = Identity 4, correspondence_set = [], fitness = 1,
        inlier_rmse = 0\<rparr>"]
    feature_driver_run scorer_run3 correspondence_run
  by (simp add: RegistrationRANSACBasedOnCorrespondence_def)


text \<open>
  The scorer on one pair of coinciding points returns fitness 1 with RMSE 0 and an
  empty correspondence set; the Evaluator on the same clouds returns fitness 1 with
  RMSE 0 and one correspondence. Neither satisfies the claimed chain of equivalences.
\<close>

theorem scorer_breaks_claimed_invariant:
  "EvaluateRANSACBasedOnCorrespondence [(0, 0, 0)] [(0, 0, 0)] [(0, 0)] 1 (Identity 4) =
     Inr \<lparr>transformation = Identity 4, correspondence_set = [], fitness = 1,
          inlier_rmse = 0\<rparr> \<and>
   \<not> claimed_invariant \<lparr>transformation = Identity 4, correspondence_set = [], fitness = 1,
                         inlier_rmse = 0\<rparr> \<and>
   GetRegistrationResultAndCorrespondences [(0, 0, 0)] [(0, 0, 0)]
     (SearchHybrid_spec [(0, 0, 0)]) 1 (Identity 4) =
     \<lparr>transformation = Identity 4, correspondence_set = [(0, 0)], fitness = 1,
      inlier_rmse = 0\<rparr> \<and>
   \<not> claimed_invariant \<lparr>transformation = Identity 4, correspondence_set = [(0, 0)],
                         fitness = 1, inlier_rmse = 0\<rparr>"
  by (simp add: scorer_run evaluator_origin claimed_invariant_def)

end
